theory Spec2Isabelle
  imports Complex_Main "HOL-Library.Sublist"
begin

section \<open>Python string operations used by the advisory pipeline\<close>

text \<open>
  Python \<open>str\<close> values are modelled as \<^typ>\<open>string\<close>; a character stands for a
  code point below 256. The operations follow CPython's \<open>str.lower\<close>, \<open>str.strip\<close>,
  \<open>str.split\<close> (both without argument), \<open>str.replace\<close>, \<open>str.join\<close> and the
  substring test \<open>p in s\<close> on that range.
\<close>

definition is_space :: "char \<Rightarrow> bool" where
  \<comment> \<open>\<open>str.isspace\<close> on one character: TAB, LF, VT, FF, CR, FS, GS, RS, US, SPACE, NEL, NBSP.\<close>
  "is_space c = (of_char c \<in> {9, 10, 11, 12, 13, 28, 29, 30, 31, 32, 133, 160 :: nat})"

definition lower_char :: "char \<Rightarrow> char" where
  "lower_char c =
     (let n = (of_char c :: nat)
      in if (65 \<le> n \<and> n \<le> 90) \<or> (192 \<le> n \<and> n \<le> 222 \<and> n \<noteq> 215)
         then char_of (n + 32) else c)"

definition lower :: "string \<Rightarrow> string" where
  "lower s = map lower_char s"

definition strip :: "string \<Rightarrow> string" where
  "strip s = rev (dropWhile is_space (rev (dropWhile is_space s)))"

fun split_from :: "string \<Rightarrow> string \<Rightarrow> string list" where
  "split_from cur [] = (if cur = [] then [] else [rev cur])"
| "split_from cur (c # cs) =
     (if is_space c
      then (if cur = [] then split_from [] cs else rev cur # split_from [] cs)
      else split_from (c # cur) cs)"

definition split :: "string \<Rightarrow> string list" where
  \<comment> \<open>\<open>s.split()\<close>: the maximal runs of non-whitespace characters, in order.\<close>
  "split s = split_from [] s"

fun replace :: "string \<Rightarrow> string \<Rightarrow> string \<Rightarrow> string" where
  \<comment> \<open>\<open>s.replace(old, new)\<close>: non-overlapping occurrences, scanned from the left.\<close>
  "replace old new [] = (if old = [] then new else [])"
| "replace old new (c # cs) =
     (if old = [] then new @ c # replace old new cs
      else if prefix old (c # cs) then new @ replace old new (drop (length old - 1) cs)
      else c # replace old new cs)"

fun join :: "string \<Rightarrow> string list \<Rightarrow> string" where
  "join sep [] = []"
| "join sep [x] = x"
| "join sep (x # y # ys) = x @ sep @ join sep (y # ys)"

definition contains_any :: "string list \<Rightarrow> string \<Rightarrow> bool" where
  \<comment> \<open>\<open>any(pattern in s for pattern in patterns)\<close>\<close>
  "contains_any patterns s = list_ex (\<lambda>pattern. sublist pattern s) patterns"

section \<open>Request, response and the fixed texts of \<open>chat_bot.py\<close>\<close>

record AskRequest =
  question :: string
  lang :: string
  location :: "string option"
  latitude :: "real option"
  longitude :: "real option"

definition valid_request :: "AskRequest \<Rightarrow> bool" where
  \<comment> \<open>The field constraints of \<open>AskRequest\<close>, checked before \<open>ask_question\<close> runs.\<close>
  "valid_request request =
     (2 \<le> length (question request) \<and> length (question request) \<le> 200 \<and>
      lang request \<in> set [''auto'', ''en'', ''am'', ''om'', ''so'', ''ti''])"

record AskResponse =
  answer :: string
  sources :: "string list"

definition lang_map :: "(string \<times> string) list" where
  "lang_map =
     [(''auto'', ''Auto''), (''en'', ''English''), (''am'', ''Amharic''),
      (''om'', ''Affan Oromo''), (''so'', ''Somali''), (''ti'', ''Tigrinya'')]"

definition lang_name :: "string \<Rightarrow> string" where
  \<comment> \<open>\<open>lang_map.get(request.lang, 'English')\<close>\<close>
  "lang_name code = (case map_of lang_map code of Some name \<Rightarrow> name | None \<Rightarrow> ''English'')"

definition clean_text :: "string \<Rightarrow> string" where
  "clean_text text = replace ''>>>>'' '''' (replace ''**'' '''' text)"

definition greeting_patterns :: "string list" where
  "greeting_patterns =
     [''hi'', ''hello'', ''hey'', ''greetings'', ''good morning'',
      ''good afternoon'', ''good evening'', ''howdy'', ''hola'', ''salut'',
      ''namaste'', ''how are you'', ''how r u'', ''how do you do'',
      ''what's up'', ''whats up'', ''sup'', ''wassup'', ''how's it going'',
      ''hows it going'']"

definition intro_patterns :: "string list" where
  "intro_patterns =
     [''who are you'', ''what are you'', ''who am i talking to'',
      ''what is your name'', ''introduce yourself'',
      ''tell me about yourself'']"

definition thanks_patterns :: "string list" where
  "thanks_patterns =
     [''thank'', ''thanks'', ''thx'', ''appreciate'']"

definition greeting_response :: string where
  "greeting_response =
     ''Hello! I'm Nile Care AI Farm Advisory, your agricultural assistant. I'm '' @
     ''here to help answer your farming questions, provide crop advice, discuss '' @
     ''pest management, soil health, weather impacts, and more. How can I assist '' @
     ''you today?''"

definition intro_response :: string where
  "intro_response =
     ''I am Nile Care AI Farm Advisory, your trusted agricultural assistant. '' @
     ''I'm designed to help farmers and agricultural professionals with farming-related '' @
     ''queries, provide guidance on crop management, pest control, soil health, '' @
     ''weather conditions, and offer tailored advice based on agricultural best '' @
     ''practices. What would you like to know about farming?''"

definition thanks_response :: string where
  "thanks_response =
     ''You're welcome! Feel free to ask me anything about farming and agriculture.''"

definition system_prompt :: string where
  \<comment> \<open>The three non-ASCII characters of line 163 are given as the UTF-8 bytes of the source file.\<close>
  "system_prompt =
     ''You are Nile Care AI Farm Advisory, a specialized agricultural assistant. '' @
     ''Your role is to provide concise, clear, and informative answers based '' @
     ''solely on the context provided. Always answer in the language requested, '' @
     ''without introducing any other languages. If the question cannot be answered '' @
     ''from the provided context, acknowledge this by saying, 'I don't know.'\<newline>\<newline>- '' @
     ''**Weather inquiries**: If asked for the weather, offer a concise, accurate '' @
     ''report based only on the available data. Do not add extra commentary or '' @
     ''suggestions.\<newline>\<newline>- **Tone & Clarity**: Your responses should '' @
     ''be professional, easy to understand, and accurate. If the context includes '' @
     ''technical terms or complex concepts, simplify them for the user'' @
     [CHR 0xC3, CHR 0xA2] @
     [CHR 0xE2, CHR 0x82, CHR 0xAC] @
     [CHR 0xE2, CHR 0x84, CHR 0xA2] @
     ''s understanding while maintaining accuracy.\<newline>\<newline>- **Consistency '' @
     ''& Transparency**: If you're unsure about something, communicate that clearly '' @
     ''and refrain from guessing. Always prioritize honesty in your responses.\<newline>\<newline>If '' @
     ''the user greets you (e.g., 'Hi', 'Hello', 'Good morning'), respond in '' @
     ''a friendly, human-like manner, such as:\<newline>'Hello! How can I assist '' @
     ''you with your farming needs today?' or 'Hi there! How can I help with '' @
     ''your agricultural questions?'If asked 'Who am I talking to?' or something '' @
     ''similar, you should respond with: 'You are talking to Nile Care AI Farm '' @
     ''Advisory, your trusted agricultural assistant designed to help with farming-related '' @
     ''queries and provide tailored guidance based on provided data.'Don't include '' @
     ''any list just return the answer in a paragraph format.''"

definition insufficient_answer :: string where
  "insufficient_answer =
     ''I'm sorry, I don't have enough information to answer that question.''"

definition connectivity_detail :: string where
  "connectivity_detail =
     ''Unable to connect to the database. This may be due to network issues, '' @
     ''IPv6 connectivity problems, or incorrect database credentials. '' @
     ''For local development, consider setting up a local PostgreSQL instance. '' @
     ''For Supabase, use the Connection Pooler host instead of the direct database host.''"

section \<open>Collaborators, the document store and the call log\<close>

text \<open>
  The clients imported from \<open>common.core\<close> are parameters of the model. A call either
  returns a value (\<open>Inr\<close>) or raises (\<open>Inl\<close>, carrying the exception text). A language
  code is a \<^typ>\<open>string option\<close>: \<open>None\<close> is Python's \<open>None\<close>, which
  \<open>detect_language\<close> may yield (line 194 guards against a falsy code).
  \<open>cosine_distance\<close> is pgvector's distance operator and \<open>float_str\<close> is the
  formatting of a float inside an f-string; floats are modelled as reals, and an embedding
  as a list of reals.
\<close>

record Services =
  detect_language :: "string \<Rightarrow> string + string option"
  google_translate :: "string \<Rightarrow> string option \<Rightarrow> string option \<Rightarrow> string + string"
  single_embed :: "string \<Rightarrow> string + real list"
  cosine_distance :: "real list \<Rightarrow> real list \<Rightarrow> real"
  get_weather :: "string \<Rightarrow> real option \<Rightarrow> real option \<Rightarrow> string + string"
  chat_completion :: "string \<Rightarrow> (string \<times> string) list \<Rightarrow> nat \<Rightarrow> string + string"
  float_str :: "real \<Rightarrow> string"

record Settings =
  k_retrieval :: nat

record Document =
  content :: string
  embedding :: "real list"

text \<open>
  The session holds the stored rows. \<open>failure = Some t\<close> is a store whose query raises
  \<open>SQLAlchemyError\<close>, \<open>t\<close> being \<open>str(getattr(e, "orig", e))\<close> of line 119; this is
  the only exception class that line 117 catches, and the only one the modelled store
  raises. \<open>k_retrieval\<close> is the row limit \<open>settings.k_retrieval\<close> (5 unless configured).
\<close>

record Session =
  documents :: "Document list"
  failure :: "string option"

datatype direction = QuestionToWorking | AnswerToRequester

text \<open>
  One event per call of a collaborator, in the order of the calls. A translation is
  tagged with the direction of its call site: line 58 translates the question into the
  working language, lines 83, 96, 103 and 194 translate the reply for the requester.
\<close>

datatype event =
    DetectLanguage string
  | Translate direction string "string option" "string option"
  | Embed string
  | Retrieve "real list" nat
  | Weather string "real option" "real option"
  | Generate string "(string \<times> string) list" nat

text \<open>
  A request ends with a response or with an exception: the \<open>HTTPException\<close> raised at
  lines 123 and 133 (status code and detail), or the exception of a collaborator, which
  \<open>ask_question\<close> does not catch.
\<close>

datatype error =
    HTTPException nat string
  | Propagated string

type_synonym 'a io = "event list \<Rightarrow> (error + 'a) \<times> event list"

definition ret :: "'a \<Rightarrow> 'a io" where
  "ret x calls = (Inr x, calls)"

definition raise :: "error \<Rightarrow> 'a io" where
  "raise e calls = (Inl e, calls)"

definition bind_io :: "'a io \<Rightarrow> ('a \<Rightarrow> 'b io) \<Rightarrow> 'b io" where
  "bind_io m f calls =
     (case m calls of
        (Inl e, calls') \<Rightarrow> (Inl e, calls')
      | (Inr x, calls') \<Rightarrow> f x calls')"

definition await :: "event \<Rightarrow> string + 'a \<Rightarrow> 'a io" where
  \<comment> \<open>An awaited collaborator call: logged, and an exception of the callee propagates.\<close>
  "await ev outcome calls =
     (case outcome of
        Inl msg \<Rightarrow> (Inl (Propagated msg), calls @ [ev])
      | Inr x \<Rightarrow> (Inr x, calls @ [ev]))"

section \<open>\<open>ask_question\<close>\<close>

definition truthy_str :: "string option \<Rightarrow> bool" where
  "truthy_str s = (case s of None \<Rightarrow> False | Some t \<Rightarrow> t \<noteq> [])"

definition truthy_float :: "real option \<Rightarrow> bool" where
  "truthy_float x = (case x of None \<Rightarrow> False | Some v \<Rightarrow> v \<noteq> 0)"

definition or_en :: "string option \<Rightarrow> string" where
  \<comment> \<open>\<open>question_lang or "en"\<close>\<close>
  "or_en question_lang = (if truthy_str question_lang then the question_lang else ''en'')"

definition normalize :: "Services \<Rightarrow> AskRequest \<Rightarrow> (string option \<times> string) io" where
  \<comment> \<open>lines 53-58: the detected language and the question in the working language\<close>
  "normalize sv request =
     bind_io (await (DetectLanguage (question request)) (detect_language sv (question request)))
       (\<lambda>question_lang.
     bind_io
       (if question_lang \<noteq> Some ''en''
        then (let src_lang = (if lang request \<noteq> ''auto'' then Some (lang request) else question_lang)
              in await (Translate QuestionToWorking (question request) src_lang (Some ''en''))
                   (google_translate sv (question request) src_lang (Some ''en'')))
        else ret (question request)) (\<lambda>english_question.
     ret (question_lang, english_question)))"

definition canned_reply :: "Services \<Rightarrow> AskRequest \<Rightarrow> string option \<Rightarrow> string \<Rightarrow> AskResponse io" where
  \<comment> \<open>lines 82-84, repeated at 95-97 and 102-104\<close>
  "canned_reply sv request question_lang response =
     bind_io
       (if lang request \<noteq> ''en'' \<and> question_lang \<noteq> Some ''en''
        then await (Translate AnswerToRequester response (Some ''en'') question_lang)
               (google_translate sv response (Some ''en'') question_lang)
        else ret response)
       (\<lambda>response. ret \<lparr>answer = response, sources = []\<rparr>)"

definition nearest :: "Services \<Rightarrow> real list \<Rightarrow> nat \<Rightarrow> Document list \<Rightarrow> Document list" where
  \<comment> \<open>\<open>order_by(Document.embedding.cosine_distance(query_embedding)).limit(k)\<close>\<close>
  "nearest sv query_embedding k rows =
     take k (sort_key (\<lambda>doc. cosine_distance sv (embedding doc) query_embedding) rows)"

definition retrieve :: "Services \<Rightarrow> Settings \<Rightarrow> Session \<Rightarrow> real list \<Rightarrow> Document list io" where
  \<comment> \<open>lines 110-136\<close>
  "retrieve sv settings db query_embedding calls =
     (let calls' = calls @ [Retrieve query_embedding (k_retrieval settings)]
      in case failure db of
           None \<Rightarrow> ret (nearest sv query_embedding (k_retrieval settings) (documents db)) calls'
         | Some root_err \<Rightarrow>
             (let err_msg = lower root_err
              in if sublist ''network is unreachable'' err_msg \<or> sublist ''connection'' err_msg
                 then raise (HTTPException 503 connectivity_detail) calls'
                 else raise (HTTPException 503 (''Database error: '' @ take 200 root_err)) calls'))"

definition location_weather ::
  "Services \<Rightarrow> AskRequest \<Rightarrow> string \<Rightarrow> (string \<times> string option) io" where
  \<comment> \<open>lines 143-146\<close>
  "location_weather sv request context =
     (if truthy_str (location request)
      then bind_io
             (await (Weather (the (location request)) None None)
                (get_weather sv (the (location request)) None None))
             (\<lambda>weather_data.
                ret (context @ ''\<newline>\<newline>Weather information for '' @ the (location request) @
                       '':\<newline>'' @ weather_data,
                     Some weather_data))
      else ret (context, None))"

definition coordinates_weather ::
  "Services \<Rightarrow> AskRequest \<Rightarrow> string \<Rightarrow> string option \<Rightarrow> (string \<times> string option) io" where
  \<comment> \<open>lines 148-150\<close>
  "coordinates_weather sv request context weather_data =
     (if truthy_float (latitude request) \<and> truthy_float (longitude request)
      then bind_io
             (await (Weather '''' (latitude request) (longitude request))
                (get_weather sv '''' (latitude request) (longitude request)))
             (\<lambda>weather_data.
                ret (context @ ''\<newline>\<newline>Weather information for coordinates ('' @
                       float_str sv (the (latitude request)) @ '', '' @
                       float_str sv (the (longitude request)) @ ''):\<newline>'' @ weather_data,
                     Some weather_data))
      else ret (context, weather_data))"

definition weather_block :: "string option \<Rightarrow> string" where
  \<comment> \<open>\<open>weather_data if weather_data else 'No weather data provided.'\<close>\<close>
  "weather_block weather_data =
     (if truthy_str weather_data then the weather_data else ''No weather data provided.'')"

definition prompt :: "string \<Rightarrow> string \<Rightarrow> string \<Rightarrow> string \<Rightarrow> string" where
  \<comment> \<open>lines 178-187\<close>
  "prompt english_question language context weather =
     ''Use the following context to answer the\<newline>\<newline>'' @
     ''    question: '' @ english_question @ ''\<newline>'' @
     ''    user language: '' @ language @
     '' just to be clear use english for the answer whatever the user language is.\<newline>\<newline>'' @
     ''    Context:\<newline>'' @
     ''    '' @ context @ ''\<newline>'' @
     ''    Weather Data:\<newline>'' @
     ''    '' @ weather @ ''\<newline>'' @
     ''    ''"

definition augment_weather ::
  "Services \<Rightarrow> AskRequest \<Rightarrow> string \<Rightarrow> (string \<times> string option) io" where
  \<comment> \<open>lines 143-150\<close>
  "augment_weather sv request context =
     bind_io (location_weather sv request context) (\<lambda>(context, weather_data).
     coordinates_weather sv request context weather_data)"

definition translate_back :: "Services \<Rightarrow> AskRequest \<Rightarrow> string option \<Rightarrow> string \<Rightarrow> string io" where
  \<comment> \<open>lines 193-194\<close>
  "translate_back sv request question_lang cleaned =
     (if lang request \<noteq> ''en'' \<or> question_lang \<noteq> Some ''en''
      then await (Translate AnswerToRequester cleaned (Some ''en'') (Some (or_en question_lang)))
             (google_translate sv cleaned (Some ''en'') (Some (or_en question_lang)))
      else ret cleaned)"

definition generate_answer ::
  "Services \<Rightarrow> AskRequest \<Rightarrow> string option \<Rightarrow> string \<Rightarrow> string \<Rightarrow> AskResponse io" where
  \<comment> \<open>lines 143-202\<close>
  "generate_answer sv request question_lang english_question context =
     bind_io (augment_weather sv request context) (\<lambda>(context, weather_data).
     let messages =
           [(''user'', prompt english_question (lang_name (lang request)) context
                        (weather_block weather_data))]
     in
     bind_io (await (Generate system_prompt messages 512)
                (chat_completion sv system_prompt messages 512)) (\<lambda>answer.
     bind_io (translate_back sv request question_lang (clean_text answer)) (\<lambda>answer.
     ret \<lparr>answer = answer, sources = [''source1'', ''source2'']\<rparr>)))"

definition answer_from_store ::
  "Services \<Rightarrow> Settings \<Rightarrow> Session \<Rightarrow> AskRequest \<Rightarrow> string option \<Rightarrow> string \<Rightarrow> AskResponse io" where
  \<comment> \<open>lines 106-202\<close>
  "answer_from_store sv settings db request question_lang english_question =
     bind_io (await (Embed english_question) (single_embed sv english_question)) (\<lambda>query_embedding.
     bind_io (retrieve sv settings db query_embedding) (\<lambda>result.
     let context = join ''\<newline>\<newline>'' (map content result) in
     if strip context = []
     then ret \<lparr>answer = insufficient_answer, sources = []\<rparr>
     else generate_answer sv request question_lang english_question context))"

definition question_lower :: "string \<Rightarrow> string" where
  \<comment> \<open>line 61\<close>
  "question_lower english_question = strip (lower english_question)"

definition is_greeting :: "string \<Rightarrow> bool" where
  \<comment> \<open>the test of line 75\<close>
  "is_greeting q = (contains_any greeting_patterns q \<and> length (split q) \<le> 5)"

definition is_intro :: "string \<Rightarrow> bool" where
  \<comment> \<open>the test of line 87\<close>
  "is_intro q = contains_any intro_patterns q"

definition is_thanks :: "string \<Rightarrow> bool" where
  \<comment> \<open>the test of line 100\<close>
  "is_thanks q = (contains_any thanks_patterns q \<and> length (split q) \<le> 5)"

definition ask_question :: "Services \<Rightarrow> Settings \<Rightarrow> Session \<Rightarrow> AskRequest \<Rightarrow> AskResponse io" where
  "ask_question sv settings db request =
     bind_io (normalize sv request) (\<lambda>(question_lang, english_question).
     if is_greeting (question_lower english_question)
     then canned_reply sv request question_lang greeting_response
     else if is_intro (question_lower english_question)
     then canned_reply sv request question_lang intro_response
     else if is_thanks (question_lower english_question)
     then canned_reply sv request question_lang thanks_response
     else answer_from_store sv settings db request question_lang english_question)"

definition run :: "Services \<Rightarrow> Settings \<Rightarrow> Session \<Rightarrow> AskRequest \<Rightarrow> (error + AskResponse) \<times> event list" where
  \<comment> \<open>One request: the outcome of \<open>ask_question\<close> and the calls it made.\<close>
  "run sv settings db request = ask_question sv settings db request []"

definition translate_calls :: "direction \<Rightarrow> event list \<Rightarrow> event list" where
  \<comment> \<open>The translation calls of one direction, in order.\<close>
  "translate_calls d calls =
     filter (\<lambda>ev. case ev of Translate d' _ _ _ \<Rightarrow> d' = d | _ \<Rightarrow> False) calls"

definition is_embed :: "event \<Rightarrow> bool" where
  "is_embed ev = (case ev of Embed _ \<Rightarrow> True | _ \<Rightarrow> False)"

definition is_retrieve :: "event \<Rightarrow> bool" where
  "is_retrieve ev = (case ev of Retrieve _ _ \<Rightarrow> True | _ \<Rightarrow> False)"

definition is_weather :: "event \<Rightarrow> bool" where
  "is_weather ev = (case ev of Weather _ _ _ \<Rightarrow> True | _ \<Rightarrow> False)"

definition is_generate :: "event \<Rightarrow> bool" where
  "is_generate ev = (case ev of Generate _ _ _ \<Rightarrow> True | _ \<Rightarrow> False)"

text \<open>
  Bookkeeping for the call log: \<open>adds m q a\<close> says that the action \<open>m\<close> only appends to
  the log, at most \<open>q\<close> question translations and \<open>a\<close> reply translations.
\<close>

definition adds :: "'a io \<Rightarrow> nat \<Rightarrow> nat \<Rightarrow> bool" where
  "adds m q a =
     (\<forall>calls. \<exists>r xs. m calls = (r, calls @ xs) \<and>
        length (translate_calls QuestionToWorking xs) \<le> q \<and>
        length (translate_calls AnswerToRequester xs) \<le> a)"

section \<open>Concrete collaborators and requests\<close>

text \<open>
  A small world on which the theorems below are instantiated: a translator that marks its
  output with the destination language, three stored rows with unit-length embeddings
  (for which the cosine distance is one minus the inner product), and a few requests.
\<close>

definition sample_translate :: "string \<Rightarrow> string option \<Rightarrow> string option \<Rightarrow> string + string" where
  "sample_translate text src_lang dest_lang =
     (if text = ''selam'' \<and> dest_lang = Some ''en'' then Inr ''hello''
      else Inr (''['' @ or_en dest_lang @ ''] '' @ text))"

definition sample_services :: Services where
  "sample_services =
     \<lparr>detect_language = (\<lambda>text. Inr (if text = ''selam'' then Some ''am'' else Some ''en'')),
      google_translate = sample_translate,
      single_embed = (\<lambda>text. Inr [1, 0]),
      cosine_distance = (\<lambda>a b. 1 - sum_list (map2 (*) a b)),
      get_weather = (\<lambda>loc lat lon. Inr (if loc = [] then ''Clear sky, 24 C'' else ''Light rain, 18 C'')),
      chat_completion = (\<lambda>system_text messages max_tokens. Inr ''Use **compost** and NPK. >>>>''),
      float_str = (\<lambda>x. if x = 0 then ''0.0'' else if x = 9 then ''9.0'' else ''38.0'')\<rparr>"

definition silent_weather_services :: Services where
  "silent_weather_services =
     sample_services\<lparr>get_weather :=
       (\<lambda>loc lat lon. Inr (if loc = [] then [] else ''Light rain, 18 C''))\<rparr>"

definition sample_settings :: Settings where
  "sample_settings = \<lparr>k_retrieval = 5\<rparr>"

definition sample_db :: Session where
  "sample_db =
     \<lparr>documents =
        [\<lparr>content = ''Rotate crops yearly.'', embedding = [0, 1]\<rparr>,
         \<lparr>content = ''Tomatoes need potassium.'', embedding = [1, 0]\<rparr>,
         \<lparr>content = ''Compost improves soil.'', embedding = [3 / 5, 4 / 5]\<rparr>],
      failure = None\<rparr>"

definition blank_db :: Session where
  "blank_db = \<lparr>documents = [\<lparr>content = ''  '', embedding = [1, 0]\<rparr>], failure = None\<rparr>"

definition refused_db :: Session where
  "refused_db = \<lparr>documents = [], failure = Some ''could not connect to server: Connection refused''\<rparr>"

definition hello_request :: AskRequest where
  "hello_request =
     \<lparr>question = ''Hello'', lang = ''en'', location = Some [], latitude = None, longitude = None\<rparr>"

definition selam_request :: AskRequest where
  "selam_request =
     \<lparr>question = ''selam'', lang = ''am'', location = Some [], latitude = None, longitude = None\<rparr>"

definition tomato_request :: AskRequest where
  "tomato_request =
     \<lparr>question = ''What fertilizer suits tomatoes?'', lang = ''en'', location = Some [],
      latitude = None, longitude = None\<rparr>"

definition hello_am_request :: AskRequest where
  "hello_am_request =
     \<lparr>question = ''hello'', lang = ''am'', location = Some [], latitude = None, longitude = None\<rparr>"

definition tomato_am_request :: AskRequest where
  "tomato_am_request =
     \<lparr>question = ''What fertilizer suits tomatoes?'', lang = ''am'', location = Some [],
      latitude = None, longitude = None\<rparr>"

definition equator_request :: AskRequest where
  "equator_request =
     \<lparr>question = ''What fertilizer suits tomatoes?'', lang = ''en'', location = Some [],
      latitude = Some 0, longitude = Some 38\<rparr>"

definition addis_request :: AskRequest where
  "addis_request =
     \<lparr>question = ''What fertilizer suits tomatoes?'', lang = ''en'', location = Some ''Addis Ababa'',
      latitude = Some 9, longitude = Some 38\<rparr>"

definition selct_db :: Session where
  "selct_db = \<lparr>documents = [], failure = Some ''syntax error at or near SELCT''\<rparr>"

definition amharic_services :: Services where
  "amharic_services = sample_services\<lparr>detect_language := (\<lambda>text. Inr (Some ''am''))\<rparr>"

definition undetected_services :: Services where
  "undetected_services = sample_services\<lparr>detect_language := (\<lambda>text. Inr None)\<rparr>"

section \<open>Stage lemmas\<close>

lemma bind_io_Inr: "m calls = (Inr x, calls') \<Longrightarrow> bind_io m f calls = f x calls'"
  by (simp add: bind_io_def)

lemma bind_io_Inl: "m calls = (Inl e, calls') \<Longrightarrow> bind_io m f calls = (Inl e, calls')"
  by (simp add: bind_io_def)

lemma await_Inr: "out = Inr x \<Longrightarrow> await ev out calls = (Inr x, calls @ [ev])"
  by (simp add: await_def)

lemma await_Inl: "out = Inl msg \<Longrightarrow> await ev out calls = (Inl (Propagated msg), calls @ [ev])"
  by (simp add: await_def)

lemma run_after_normalize:
  assumes "normalize sv request [] = (Inr (ql, eq), calls0)"
  shows "run sv settings db request =
     (if is_greeting (question_lower eq) then canned_reply sv request ql greeting_response calls0
      else if is_intro (question_lower eq) then canned_reply sv request ql intro_response calls0
      else if is_thanks (question_lower eq) then canned_reply sv request ql thanks_response calls0
      else answer_from_store sv settings db request ql eq calls0)"
  using assms by (simp add: run_def ask_question_def bind_io_def)

lemma canned_reply_plain:
  "lang request = ''en'' \<or> ql = Some ''en'' \<Longrightarrow>
   canned_reply sv request ql response calls = (Inr \<lparr>answer = response, sources = []\<rparr>, calls)"
  by (auto simp: canned_reply_def bind_io_def ret_def)

lemma canned_reply_translated:
  "lang request \<noteq> ''en'' \<Longrightarrow> ql \<noteq> Some ''en'' \<Longrightarrow>
   canned_reply sv request ql response calls =
     (case google_translate sv response (Some ''en'') ql of
        Inl msg \<Rightarrow> Inl (Propagated msg)
      | Inr translated \<Rightarrow> Inr \<lparr>answer = translated, sources = []\<rparr>,
      calls @ [Translate AnswerToRequester response (Some ''en'') ql])"
  by (auto simp: canned_reply_def bind_io_def ret_def await_def split: sum.splits)

lemma normalize_calls:
  assumes "normalize sv request [] = (r, calls0)"
  shows "list_all (\<lambda>ev. \<not> is_embed ev \<and> \<not> is_retrieve ev \<and> \<not> is_weather ev \<and> \<not> is_generate ev) calls0
         \<and> translate_calls AnswerToRequester calls0 = []"
  using assms
  by (auto simp: normalize_def bind_io_def await_def ret_def Let_def translate_calls_def
        is_embed_def is_retrieve_def is_weather_def is_generate_def
      split: sum.splits if_splits)

lemma answer_from_store_failure:
  assumes "single_embed sv eq = Inr v" and "failure db = Some root_err"
  shows "answer_from_store sv settings db request ql eq calls =
     (Inl (HTTPException 503
        (if sublist ''network is unreachable'' (lower root_err) \<or> sublist ''connection'' (lower root_err)
         then connectivity_detail else ''Database error: '' @ take 200 root_err)),
      calls @ [Embed eq, Retrieve v (k_retrieval settings)])"
  using assms
  by (simp add: answer_from_store_def bind_io_def await_def retrieve_def raise_def Let_def)

lemma answer_from_store_rows:
  assumes "single_embed sv eq = Inr v" and "failure db = None"
  shows "answer_from_store sv settings db request ql eq calls =
     (let context = join ''\<newline>\<newline>'' (map content (nearest sv v (k_retrieval settings) (documents db)))
      in if strip context = []
         then (Inr \<lparr>answer = insufficient_answer, sources = []\<rparr>,
               calls @ [Embed eq, Retrieve v (k_retrieval settings)])
         else generate_answer sv request ql eq context
                (calls @ [Embed eq, Retrieve v (k_retrieval settings)]))"
  using assms
  by (simp add: answer_from_store_def bind_io_def await_def retrieve_def ret_def Let_def)

lemma translate_back_plain:
  "lang request = ''en'' \<Longrightarrow> ql = Some ''en'' \<Longrightarrow>
   translate_back sv request ql cleaned calls = (Inr cleaned, calls)"
  by (simp add: translate_back_def ret_def)

lemma translate_back_translated:
  "lang request \<noteq> ''en'' \<or> ql \<noteq> Some ''en'' \<Longrightarrow>
   translate_back sv request ql cleaned calls =
     (case google_translate sv cleaned (Some ''en'') (Some (or_en ql)) of
        Inl msg \<Rightarrow> Inl (Propagated msg) | Inr translated \<Rightarrow> Inr translated,
      calls @ [Translate AnswerToRequester cleaned (Some ''en'') (Some (or_en ql))])"
  by (auto simp: translate_back_def await_def split: sum.splits)

lemma generate_answer_after_weather:
  assumes "augment_weather sv request context0 calls1 = (Inr (context, weather_data), calls2)"
  shows "generate_answer sv request ql eq context0 calls1 =
     (let messages = [(''user'', prompt eq (lang_name (lang request)) context (weather_block weather_data))];
          calls3 = calls2 @ [Generate system_prompt messages 512]
      in case chat_completion sv system_prompt messages 512 of
           Inl msg \<Rightarrow> (Inl (Propagated msg), calls3)
         | Inr generated \<Rightarrow>
             (case translate_back sv request ql (clean_text generated) calls3 of
                (Inl e, calls4) \<Rightarrow> (Inl e, calls4)
              | (Inr final, calls4) \<Rightarrow>
                  (Inr \<lparr>answer = final, sources = [''source1'', ''source2'']\<rparr>, calls4)))"
  using assms
  by (auto simp: generate_answer_def bind_io_def await_def ret_def Let_def split: sum.splits prod.splits)

lemma location_weather_eq:
  "location_weather sv request context calls =
     (if truthy_str (location request)
      then (case get_weather sv (the (location request)) None None of
              Inl msg \<Rightarrow> (Inl (Propagated msg), calls @ [Weather (the (location request)) None None])
            | Inr w \<Rightarrow>
                (Inr (context @ ''\<newline>\<newline>Weather information for '' @ the (location request) @
                        '':\<newline>'' @ w, Some w),
                 calls @ [Weather (the (location request)) None None]))
      else (Inr (context, None), calls))"
  by (simp add: location_weather_def bind_io_def await_def ret_def split: sum.splits)

lemma coordinates_weather_eq:
  "coordinates_weather sv request context weather_data calls =
     (if truthy_float (latitude request) \<and> truthy_float (longitude request)
      then (case get_weather sv '''' (latitude request) (longitude request) of
              Inl msg \<Rightarrow> (Inl (Propagated msg), calls @ [Weather '''' (latitude request) (longitude request)])
            | Inr w \<Rightarrow>
                (Inr (context @ ''\<newline>\<newline>Weather information for coordinates ('' @
                        float_str sv (the (latitude request)) @ '', '' @
                        float_str sv (the (longitude request)) @ ''):\<newline>'' @ w, Some w),
                 calls @ [Weather '''' (latitude request) (longitude request)]))
      else (Inr (context, weather_data), calls))"
  by (simp add: coordinates_weather_def bind_io_def await_def ret_def split: sum.splits)

lemma augment_weather_calls:
  assumes "augment_weather sv request context0 calls1 = (r, calls2)"
  shows "\<exists>ws. calls2 = calls1 @ ws \<and> list_all is_weather ws"
  using assms
  by (auto simp: augment_weather_def bind_io_def location_weather_eq coordinates_weather_eq
        is_weather_def split: sum.splits if_splits prod.splits)

lemma augment_weather_context:
  assumes "augment_weather sv request context0 calls1 = (Inr (context, weather_data), calls2)"
  shows "prefix context0 context"
    and "\<not> truthy_str (location request) \<Longrightarrow>
         \<not> (truthy_float (latitude request) \<and> truthy_float (longitude request)) \<Longrightarrow>
         context = context0 \<and> weather_data = None \<and> calls2 = calls1"
  using assms
  by (auto simp: augment_weather_def bind_io_def location_weather_eq coordinates_weather_eq
        split: sum.splits if_splits prod.splits)

lemma normalize_quiet:
  assumes "normalize sv request [] = (r, calls0)"
  shows "filter is_generate calls0 = []" and "filter is_weather calls0 = []"
    and "translate_calls AnswerToRequester calls0 = []"
  using assms
  by (auto simp: normalize_def bind_io_def await_def ret_def Let_def translate_calls_def
        is_weather_def is_generate_def
      split: sum.splits if_splits)


lemma adds_ret: "adds (ret x) q a"
  by (simp add: adds_def ret_def translate_calls_def)

lemma adds_bind:
  assumes m: "adds m q1 a1" and f: "\<And>x. adds (f x) q2 a2"
    and le: "q1 + q2 \<le> q" "a1 + a2 \<le> a"
  shows "adds (bind_io m f) q a"
  unfolding adds_def
proof
  fix calls
  from m obtain r xs where mx: "m calls = (r, calls @ xs)"
    and q: "length (translate_calls QuestionToWorking xs) \<le> q1"
    and a: "length (translate_calls AnswerToRequester xs) \<le> a1"
    unfolding adds_def by blast
  show "\<exists>r xs. bind_io m f calls = (r, calls @ xs) \<and>
        length (translate_calls QuestionToWorking xs) \<le> q \<and>
        length (translate_calls AnswerToRequester xs) \<le> a"
  proof (cases r)
    case (Inl e)
    with mx q a le show ?thesis
      by (intro exI[of _ "Inl e"] exI[of _ xs]) (simp add: bind_io_def)
  next
    case (Inr x)
    from f[of x] obtain r' ys where fx: "f x (calls @ xs) = (r', (calls @ xs) @ ys)"
      and q': "length (translate_calls QuestionToWorking ys) \<le> q2"
      and a': "length (translate_calls AnswerToRequester ys) \<le> a2"
      unfolding adds_def by blast
    with Inr mx q a le show ?thesis
      by (intro exI[of _ r'] exI[of _ "xs @ ys"]) (simp add: bind_io_def translate_calls_def)
  qed
qed

lemma adds_if: "adds m q a \<Longrightarrow> adds n q a \<Longrightarrow> adds (if b then m else n) q a"
  by simp

lemma adds_case_prod: "(\<And>u v. adds (f u v) q a) \<Longrightarrow> adds (case x of (u, v) \<Rightarrow> f u v) q a"
  by (cases x) simp

lemma adds_await_detect: "adds (await (DetectLanguage t) out) q a"
  by (auto simp: adds_def await_def translate_calls_def split: sum.splits)

lemma adds_await_embed: "adds (await (Embed t) out) q a"
  by (auto simp: adds_def await_def translate_calls_def split: sum.splits)

lemma adds_await_weather: "adds (await (Weather l x y) out) q a"
  by (auto simp: adds_def await_def translate_calls_def split: sum.splits)

lemma adds_await_generate: "adds (await (Generate s ms n) out) q a"
  by (auto simp: adds_def await_def translate_calls_def split: sum.splits)

lemma adds_await_question: "adds (await (Translate QuestionToWorking t s d) out) (Suc q) a"
  by (auto simp: adds_def await_def translate_calls_def split: sum.splits)

lemma adds_await_answer: "adds (await (Translate AnswerToRequester t s d) out) q (Suc a)"
  by (auto simp: adds_def await_def translate_calls_def split: sum.splits)

lemma adds_normalize: "adds (normalize sv request) (Suc 0) 0"
  unfolding normalize_def Let_def
  apply (rule adds_bind[where ?q1.0=0 and ?a1.0=0 and ?q2.0="Suc 0" and ?a2.0=0])
     apply (rule adds_await_detect)
    apply (rule adds_bind[where ?q1.0="Suc 0" and ?a1.0=0 and ?q2.0=0 and ?a2.0=0])
       apply (rule adds_if)
        apply (rule adds_await_question)
       apply (rule adds_ret)
      apply (rule adds_ret)
     apply simp_all
  done

lemma adds_canned_reply: "adds (canned_reply sv request ql response) 0 (Suc 0)"
  unfolding canned_reply_def
  apply (rule adds_bind[where ?q1.0=0 and ?a1.0="Suc 0" and ?q2.0=0 and ?a2.0=0])
     apply (rule adds_if)
      apply (rule adds_await_answer)
     apply (rule adds_ret)
    apply (rule adds_ret)
   apply simp_all
  done

lemma adds_retrieve: "adds (retrieve sv settings db v) 0 0"
  by (auto simp: adds_def retrieve_def Let_def ret_def raise_def translate_calls_def
      split: option.splits)

lemma adds_location_weather: "adds (location_weather sv request context) 0 0"
  unfolding location_weather_def
  apply (rule adds_if)
   apply (rule adds_bind[where ?q1.0=0 and ?a1.0=0 and ?q2.0=0 and ?a2.0=0])
      apply (rule adds_await_weather)
     apply (rule adds_ret)
    apply simp_all
  apply (rule adds_ret)
  done

lemma adds_coordinates_weather: "adds (coordinates_weather sv request context wd) 0 0"
  unfolding coordinates_weather_def
  apply (rule adds_if)
   apply (rule adds_bind[where ?q1.0=0 and ?a1.0=0 and ?q2.0=0 and ?a2.0=0])
      apply (rule adds_await_weather)
     apply (rule adds_ret)
    apply simp_all
  apply (rule adds_ret)
  done

lemma adds_augment_weather: "adds (augment_weather sv request context) 0 0"
  unfolding augment_weather_def
  apply (rule adds_bind[where ?q1.0=0 and ?a1.0=0 and ?q2.0=0 and ?a2.0=0])
     apply (rule adds_location_weather)
    apply (rule adds_case_prod)
    apply (rule adds_coordinates_weather)
   apply simp_all
  done

lemma adds_translate_back: "adds (translate_back sv request ql cleaned) 0 (Suc 0)"
  unfolding translate_back_def
  apply (rule adds_if)
   apply (rule adds_await_answer)
  apply (rule adds_ret)
  done

lemma adds_generate_answer: "adds (generate_answer sv request ql eq context) 0 (Suc 0)"
  unfolding generate_answer_def Let_def
  apply (rule adds_bind[where ?q1.0=0 and ?a1.0=0 and ?q2.0=0 and ?a2.0="Suc 0"])
     apply (rule adds_augment_weather)
    apply (rule adds_case_prod)
    apply (rule adds_bind[where ?q1.0=0 and ?a1.0=0 and ?q2.0=0 and ?a2.0="Suc 0"])
       apply (rule adds_await_generate)
      apply (rule adds_bind[where ?q1.0=0 and ?a1.0="Suc 0" and ?q2.0=0 and ?a2.0=0])
         apply (rule adds_translate_back)
        apply (rule adds_ret)
       apply simp_all
  done

lemma adds_answer_from_store: "adds (answer_from_store sv settings db request ql eq) 0 (Suc 0)"
  unfolding answer_from_store_def Let_def
  apply (rule adds_bind[where ?q1.0=0 and ?a1.0=0 and ?q2.0=0 and ?a2.0="Suc 0"])
     apply (rule adds_await_embed)
    apply (rule adds_bind[where ?q1.0=0 and ?a1.0=0 and ?q2.0=0 and ?a2.0="Suc 0"])
       apply (rule adds_retrieve)
      apply (rule adds_if)
       apply (rule adds_ret)
      apply (rule adds_generate_answer)
     apply simp_all
  done

lemma adds_ask_question: "adds (ask_question sv settings db request) (Suc 0) (Suc 0)"
  unfolding ask_question_def
  apply (rule adds_bind[where ?q1.0="Suc 0" and ?a1.0=0 and ?q2.0=0 and ?a2.0="Suc 0"])
     apply (rule adds_normalize)
    apply (rule adds_case_prod)
    apply (intro adds_if adds_canned_reply adds_answer_from_store)
   apply simp_all
  done


lemma replace_hit:
  "old \<noteq> [] \<Longrightarrow> prefix old (c # cs) \<Longrightarrow>
   replace old new (c # cs) = new @ replace old new (drop (length old - 1) cs)"
  by simp

lemma replace_miss:
  "old \<noteq> [] \<Longrightarrow> \<not> prefix old (c # cs) \<Longrightarrow> replace old new (c # cs) = c # replace old new cs"
  by simp

lemma prefix_replicate_run:
  "prefix (replicate m c) s \<longleftrightarrow> m \<le> length (takeWhile (\<lambda>x. x = c) s)"
proof (induction m arbitrary: s)
  case 0
  then show ?case by simp
next
  case (Suc m)
  then show ?case by (cases s) (auto simp: prefix_Cons)
qed

lemma replace_run_lead:
  "length (takeWhile (\<lambda>x. x = c) (replace (replicate (Suc n) c) [] s))
     = length (takeWhile (\<lambda>x. x = c) s) mod Suc n"
proof (induction s rule: length_induct)
  case (1 s)
  let ?p = "replicate (Suc n) c"
  let ?L = "\<lambda>s. length (takeWhile (\<lambda>x. x = c) s)"
  have p: "?p \<noteq> []" "length ?p - 1 = n" by simp_all
  show ?case
  proof (cases s)
    case Nil
    then show ?thesis by simp
  next
    case (Cons x xs)
    show ?thesis
    proof (cases "prefix ?p (x # xs)")
      case True
      then have s_eq: "x # xs = ?p @ drop n xs"
        by (auto simp: prefix_def)
      have "takeWhile (\<lambda>x. x = c) (?p @ drop n xs) = ?p @ takeWhile (\<lambda>x. x = c) (drop n xs)"
        by (rule takeWhile_append2) auto
      then have L: "?L (x # xs) = Suc n + ?L (drop n xs)"
        by (simp only: s_eq length_append length_replicate)
      have r: "replace ?p [] (x # xs) = replace ?p [] (drop n xs)"
        using replace_hit[OF p(1) True, of "[]"] by (simp only: p append_Nil)
      have "length (drop n xs) < length s" using Cons by simp
      with 1 have ih: "?L (replace ?p [] (drop n xs)) = ?L (drop n xs) mod Suc n" by blast
      show ?thesis
        by (simp only: Cons r ih L mod_add_self1)
    next
      case False
      then have short: "\<not> Suc n \<le> ?L (x # xs)"
        by (simp only: prefix_replicate_run not_False_eq_True)
      have r: "replace ?p [] (x # xs) = x # replace ?p [] xs"
        using replace_miss[OF p(1) False] .
      have "length xs < length s" using Cons by simp
      with 1 have ih: "?L (replace ?p [] xs) = ?L xs mod Suc n" by blast
      show ?thesis
      proof (cases "x = c")
        case True
        with short have lt: "?L xs < n" by simp
        have a: "?L (x # replace ?p [] xs) = Suc (?L (replace ?p [] xs))" using True by simp
        have b: "?L (x # xs) = Suc (?L xs)" using True by simp
        have c: "?L xs mod Suc n = ?L xs" using lt by simp
        have d: "Suc (?L xs) mod Suc n = Suc (?L xs)" using lt by simp
        show ?thesis by (simp only: Cons r a b ih c d)
      next
        case False
        have a: "?L (x # replace ?p [] xs) = 0" using False by simp
        have b: "?L (x # xs) = 0" using False by simp
        show ?thesis by (simp only: Cons r a b mod_0)
      qed
    qed
  qed
qed

lemma replace_run_gone:
  "\<not> sublist (replicate (Suc n) c) (replace (replicate (Suc n) c) [] s)"
proof (induction s rule: length_induct)
  case (1 s)
  let ?p = "replicate (Suc n) c"
  have p: "?p \<noteq> []" "length ?p - 1 = n" by simp_all
  show ?case
  proof (cases s)
    case Nil
    then show ?thesis by simp
  next
    case (Cons x xs)
    show ?thesis
    proof (cases "prefix ?p (x # xs)")
      case True
      have r: "replace ?p [] (x # xs) = replace ?p [] (drop n xs)"
        using replace_hit[OF p(1) True, of "[]"] by (simp only: p append_Nil)
      have "length (drop n xs) < length s" using Cons by simp
      with 1 have "\<not> sublist ?p (replace ?p [] (drop n xs))" by blast
      then show ?thesis unfolding Cons r .
    next
      case False
      have r: "replace ?p [] (x # xs) = x # replace ?p [] xs"
        using replace_miss[OF p(1) False] .
      have "length xs < length s" using Cons by simp
      with 1 have ih: "\<not> sublist ?p (replace ?p [] xs)" by blast
      have "length (takeWhile (\<lambda>x. x = c) (replace ?p [] s)) < Suc n"
        by (simp only: replace_run_lead) simp
      then have "\<not> prefix ?p (replace ?p [] s)"
        by (simp only: prefix_replicate_run not_le not_False_eq_True)
      then have "\<not> prefix ?p (x # replace ?p [] xs)"
        by (simp only: Cons r not_False_eq_True)
      with ih have "\<not> sublist ?p (x # replace ?p [] xs)"
        by (simp only: sublist_Cons_right) simp
      then show ?thesis unfolding Cons r .
    qed
  qed
qed

lemma no_arrows_after_replace: "\<not> sublist ''>>>>'' (replace ''>>>>'' '''' s)"
  using replace_run_gone[of 3 "CHR ''>''" s] by (simp add: numeral_3_eq_3)

lemma no_stars_after_replace: "\<not> sublist ''**'' (replace ''**'' '''' s)"
  using replace_run_gone[of 1 "CHR ''*''" s] by simp

lemma replace_arrows_keeps_star_free:
  "\<not> sublist ''**'' u \<Longrightarrow> \<not> sublist ''*>>>>'' u \<Longrightarrow> \<not> sublist ''**'' (replace ''>>>>'' '''' u)"
proof (induction u rule: length_induct)
  case (1 u)
  let ?p = "''>>>>''"
  have p: "?p \<noteq> []" "length ?p - 1 = 3" by simp_all
  show ?case
  proof (cases u)
    case Nil
    then show ?thesis by simp
  next
    case (Cons x xs)
    show ?thesis
    proof (cases "prefix ?p (x # xs)")
      case True
      have r: "replace ?p [] (x # xs) = replace ?p [] (drop 3 xs)"
        using replace_hit[OF p(1) True, of "[]"] by (simp only: p append_Nil)
      have "sublist (drop 3 xs) xs" by (rule sublist_drop)
      then have sub: "sublist (drop 3 xs) u"
        unfolding Cons by (simp add: sublist_Cons_right)
      have "\<not> sublist ''**'' (drop 3 xs)" "\<not> sublist ''*>>>>'' (drop 3 xs)"
        using sub 1(2,3) sublist_order.order_trans by blast+
      moreover have "length (drop 3 xs) < length u" using Cons by simp
      ultimately have "\<not> sublist ''**'' (replace ?p [] (drop 3 xs))"
        using 1(1) by blast
      then show ?thesis unfolding Cons r .
    next
      case False
      have r: "replace ?p [] (x # xs) = x # replace ?p [] xs"
        using replace_miss[OF p(1) False] .
      have xs: "\<not> sublist ''**'' xs" "\<not> sublist ''*>>>>'' xs"
        using 1(2,3) unfolding Cons by (simp_all only: sublist_Cons_right de_Morgan_disj not_False_eq_True)
      have "length xs < length u" using Cons by simp
      with 1(1) xs have ih: "\<not> sublist ''**'' (replace ?p [] xs)" by blast
      have "\<not> prefix ''**'' (x # replace ?p [] xs)"
      proof (cases "x = CHR ''*''")
        case False
        then show ?thesis by simp
      next
        case True
        from 1(2,3) have "\<not> prefix ''**'' (x # xs)" "\<not> prefix ''*>>>>'' (x # xs)"
          unfolding Cons by (simp_all only: sublist_Cons_right de_Morgan_disj not_False_eq_True)
        with True have a: "\<not> prefix ''*'' xs" and b: "\<not> prefix ?p xs"
          by simp_all
        show ?thesis
        proof (cases xs)
          case Nil
          then show ?thesis by simp
        next
          case (Cons y ys)
          from b have "replace ?p [] (y # ys) = y # replace ?p [] ys"
            unfolding Cons by (rule replace_miss[OF p(1)])
          with a Cons show ?thesis by simp
        qed
      qed
      with ih have "\<not> sublist ''**'' (x # replace ?p [] xs)"
        by (simp only: sublist_Cons_right) simp
      then show ?thesis unfolding Cons r .
    qed
  qed
qed

lemma clean_text_artifacts:
  "\<not> sublist ''>>>>'' (clean_text t)"
  "\<not> sublist ''*>>>>'' (replace ''**'' '''' t) \<Longrightarrow> \<not> sublist ''**'' (clean_text t)"
  unfolding clean_text_def
  by (simp_all only: no_arrows_after_replace no_stars_after_replace replace_arrows_keeps_star_free not_False_eq_True)


lemma augment_weather_append:
  "augment_weather sv request context0 calls =
     (fst (augment_weather sv request context0 []),
      calls @ snd (augment_weather sv request context0 []))"
  by (auto simp: augment_weather_def bind_io_def location_weather_eq coordinates_weather_eq
      split: sum.splits)

lemma augment_weather_quiet:
  assumes "augment_weather sv request context0 [] = (r, ws)"
  shows "filter is_generate ws = []" and "translate_calls d ws = []"
  using assms
  by (auto simp: augment_weather_def bind_io_def location_weather_eq coordinates_weather_eq
        is_generate_def translate_calls_def
      split: sum.splits if_splits)

lemma run_to_generation:
  assumes "normalize sv request [] = (Inr (question_lang, english_question), calls0)"
    and "\<not> is_greeting (question_lower english_question)"
    and "\<not> is_intro (question_lower english_question)"
    and "\<not> is_thanks (question_lower english_question)"
    and "single_embed sv english_question = Inr query_embedding"
    and "failure db = None"
    and "strip (join ''\<newline>\<newline>''
           (map content (nearest sv query_embedding (k_retrieval settings) (documents db)))) \<noteq> []"
    and "augment_weather sv request
           (join ''\<newline>\<newline>''
              (map content (nearest sv query_embedding (k_retrieval settings) (documents db)))) []
         = (Inr (context, weather_data), ws)"
    and "messages = [(''user'', prompt english_question (lang_name (lang request)) context
                                 (weather_block weather_data))]"
    and "calls3 = calls0 @ [Embed english_question, Retrieve query_embedding (k_retrieval settings)]
                    @ ws @ [Generate system_prompt messages 512]"
  shows "run sv settings db request =
     (case chat_completion sv system_prompt messages 512 of
        Inl msg \<Rightarrow> (Inl (Propagated msg), calls3)
      | Inr generated \<Rightarrow>
          (if lang request = ''en'' \<and> question_lang = Some ''en''
           then (Inr \<lparr>answer = clean_text generated, sources = [''source1'', ''source2'']\<rparr>, calls3)
           else (case google_translate sv (clean_text generated) (Some ''en'')
                        (Some (or_en question_lang)) of
                   Inl msg \<Rightarrow> Inl (Propagated msg)
                 | Inr translated \<Rightarrow>
                     Inr \<lparr>answer = translated, sources = [''source1'', ''source2'']\<rparr>,
                 calls3 @ [Translate AnswerToRequester (clean_text generated) (Some ''en'')
                             (Some (or_en question_lang))])))"
proof -
  let ?context0 = "join ''\<newline>\<newline>''
     (map content (nearest sv query_embedding (k_retrieval settings) (documents db)))"
  let ?calls1 = "calls0 @ [Embed english_question, Retrieve query_embedding (k_retrieval settings)]"
  have run_eq: "run sv settings db request =
      generate_answer sv request question_lang english_question ?context0 ?calls1"
    using run_after_normalize[OF assms(1)] assms(2-4,7) answer_from_store_rows[OF assms(5,6)]
    by (simp add: Let_def)
  have aug: "augment_weather sv request ?context0 ?calls1 =
      (Inr (context, weather_data), ?calls1 @ ws)"
    using augment_weather_append[of sv request ?context0 ?calls1] assms(8) by simp
  show ?thesis
  proof (cases "chat_completion sv system_prompt messages 512")
    case (Inl msg)
    then show ?thesis
      unfolding run_eq generate_answer_after_weather[OF aug]
      using assms(9,10) by (simp add: Let_def)
  next
    case (Inr generated)
    show ?thesis
    proof (cases "lang request = ''en'' \<and> question_lang = Some ''en''")
      case True
      then show ?thesis
        unfolding run_eq generate_answer_after_weather[OF aug]
        using assms(9,10) Inr by (simp add: Let_def translate_back_plain)
    next
      case False
      then have ne: "lang request \<noteq> ''en'' \<or> question_lang \<noteq> Some ''en''" by blast
      show ?thesis
        unfolding run_eq generate_answer_after_weather[OF aug]
        using assms(9,10) Inr False
        by (simp add: Let_def translate_back_translated[OF ne] split: sum.splits)
    qed
  qed
qed

lemma run_generate_calls:
  assumes "normalize sv request [] = (Inr (question_lang, english_question), calls0)"
    and "\<not> is_greeting (question_lower english_question)"
    and "\<not> is_intro (question_lower english_question)"
    and "\<not> is_thanks (question_lower english_question)"
    and "single_embed sv english_question = Inr query_embedding"
    and "failure db = None"
    and "strip (join ''\<newline>\<newline>''
           (map content (nearest sv query_embedding (k_retrieval settings) (documents db)))) \<noteq> []"
    and "augment_weather sv request
           (join ''\<newline>\<newline>''
              (map content (nearest sv query_embedding (k_retrieval settings) (documents db)))) []
         = (Inr (context, weather_data), ws)"
  shows "filter is_generate (snd (run sv settings db request)) =
     [Generate system_prompt
        [(''user'', prompt english_question (lang_name (lang request)) context
                     (weather_block weather_data))] 512]"
proof -
  note quiet = normalize_quiet(1)[OF assms(1)] augment_weather_quiet(1)[OF assms(8)]
  show ?thesis
    unfolding run_to_generation[OF assms refl refl]
    using quiet by (auto simp: is_generate_def split: sum.splits)
qed

lemma nearest_sorted:
  "sorted (map (\<lambda>doc. cosine_distance sv (embedding doc) v) (nearest sv v k rows))"
  unfolding nearest_def
  by (simp add: take_map[symmetric] sorted_wrt_take)

lemma nearest_length: "length (nearest sv v k rows) \<le> k"
  by (simp add: nearest_def)

section \<open>The claims\<close>

text \<open>
  C1. When the normalised, lower-cased, trimmed question contains a greeting pattern and has
  at most five whitespace-separated tokens, \<open>ask_question\<close> answers with the canned
  greeting and an empty source list (the greeting goes through one translation call when
  both the requested and the detected language differ from English, whose failure
  propagates), and the request makes no embedding, retrieval or generation call.
\<close>

theorem greeting_short_circuit:
  assumes "normalize sv request [] = (Inr (question_lang, english_question), calls0)"
    and "contains_any greeting_patterns (question_lower english_question)"
    and "length (split (question_lower english_question)) \<le> 5"
  shows "fst (run sv settings db request) =
           (if lang request \<noteq> ''en'' \<and> question_lang \<noteq> Some ''en''
            then (case google_translate sv greeting_response (Some ''en'') question_lang of
                    Inl msg \<Rightarrow> Inl (Propagated msg)
                  | Inr translated \<Rightarrow> Inr \<lparr>answer = translated, sources = []\<rparr>)
            else Inr \<lparr>answer = greeting_response, sources = []\<rparr>) \<and>
         list_all (\<lambda>ev. \<not> is_embed ev \<and> \<not> is_retrieve ev \<and> \<not> is_generate ev)
           (snd (run sv settings db request))"
proof -
  have greet: "is_greeting (question_lower english_question)"
    using assms(2,3) by (simp add: is_greeting_def)
  have run_eq: "run sv settings db request =
      canned_reply sv request question_lang greeting_response calls0"
    using run_after_normalize[OF assms(1)] greet by simp
  have quiet: "list_all (\<lambda>ev. \<not> is_embed ev \<and> \<not> is_retrieve ev \<and> \<not> is_generate ev) calls0"
    using normalize_calls[OF assms(1)] by (simp add: list_all_iff)
  show ?thesis
  proof (cases "lang request \<noteq> ''en'' \<and> question_lang \<noteq> Some ''en''")
    case True
    then show ?thesis
      using quiet unfolding run_eq
      by (simp add: canned_reply_translated is_embed_def is_retrieve_def is_generate_def)
  next
    case False
    then have "lang request = ''en'' \<or> question_lang = Some ''en''" by blast
    from canned_reply_plain[OF this] False quiet show ?thesis
      unfolding run_eq by auto
  qed
qed

lemma hello_normalized:
  "normalize sample_services hello_request [] = (Inr (Some ''en'', ''Hello''), [DetectLanguage ''Hello''])"
  by (simp add: normalize_def sample_services_def hello_request_def bind_io_def await_def ret_def)

theorem greeting_short_circuit_witness:
  "normalize sample_services hello_request [] = (Inr (Some ''en'', ''Hello''), [DetectLanguage ''Hello'']) \<and>
   contains_any greeting_patterns (question_lower ''Hello'') \<and>
   length (split (question_lower ''Hello'')) \<le> 5 \<and>
   fst (run sample_services sample_settings sample_db hello_request) =
     Inr \<lparr>answer = greeting_response, sources = []\<rparr> \<and>
   list_all (\<lambda>ev. \<not> is_embed ev \<and> \<not> is_retrieve ev \<and> \<not> is_generate ev)
     (snd (run sample_services sample_settings sample_db hello_request))"
proof -
  have h2: "contains_any greeting_patterns (question_lower ''Hello'')" by code_simp
  have h3: "length (split (question_lower ''Hello'')) \<le> 5" by code_simp
  have "lang hello_request = ''en''" by (simp add: hello_request_def)
  with greeting_short_circuit[OF hello_normalized h2 h3, of sample_settings sample_db]
  show ?thesis using hello_normalized h2 h3 by simp
qed

text \<open>
  C2. When retrieval succeeds and the concatenated chunk texts are empty or blank,
  \<open>ask_question\<close> returns exactly the fixed insufficient-information answer with an
  empty source list, whatever the requested and detected languages; after the embedding
  and the store query no further call is made, so the generation service is not called
  and the answer is not translated.
\<close>

theorem blank_context_insufficient_answer:
  assumes "normalize sv request [] = (Inr (question_lang, english_question), calls0)"
    and "\<not> is_greeting (question_lower english_question)"
    and "\<not> is_intro (question_lower english_question)"
    and "\<not> is_thanks (question_lower english_question)"
    and "single_embed sv english_question = Inr query_embedding"
    and "failure db = None"
    and "strip (join ''\<newline>\<newline>''
           (map content (nearest sv query_embedding (k_retrieval settings) (documents db)))) = []"
  shows "run sv settings db request =
           (Inr \<lparr>answer = insufficient_answer, sources = []\<rparr>,
            calls0 @ [Embed english_question, Retrieve query_embedding (k_retrieval settings)]) \<and>
         filter is_generate (snd (run sv settings db request)) = [] \<and>
         translate_calls AnswerToRequester (snd (run sv settings db request)) = []"
proof -
  have run_eq: "run sv settings db request =
      (Inr \<lparr>answer = insufficient_answer, sources = []\<rparr>,
       calls0 @ [Embed english_question, Retrieve query_embedding (k_retrieval settings)])"
    using run_after_normalize[OF assms(1)] assms(2-4,7)
      answer_from_store_rows[OF assms(5,6)]
    by (simp add: Let_def)
  show ?thesis
    using normalize_quiet[OF assms(1)]
    by (simp add: run_eq is_generate_def translate_calls_def)
qed

lemma tomato_normalized:
  "normalize sample_services tomato_request [] =
     (Inr (Some ''en'', ''What fertilizer suits tomatoes?''),
      [DetectLanguage ''What fertilizer suits tomatoes?''])"
  by (simp add: normalize_def sample_services_def tomato_request_def bind_io_def await_def ret_def)

lemma tomato_not_small_talk:
  "\<not> is_greeting (question_lower ''What fertilizer suits tomatoes?'')"
  "\<not> is_intro (question_lower ''What fertilizer suits tomatoes?'')"
  "\<not> is_thanks (question_lower ''What fertilizer suits tomatoes?'')"
  by code_simp+

lemma sample_embed: "single_embed sample_services text = Inr [1, 0]"
  by (simp add: sample_services_def)

theorem blank_context_insufficient_answer_witness:
  "run sample_services sample_settings blank_db tomato_request =
     (Inr \<lparr>answer = insufficient_answer, sources = []\<rparr>,
      [DetectLanguage ''What fertilizer suits tomatoes?'',
       Embed ''What fertilizer suits tomatoes?'', Retrieve [1, 0] 5]) \<and>
   filter is_generate (snd (run sample_services sample_settings blank_db tomato_request)) = [] \<and>
   translate_calls AnswerToRequester
     (snd (run sample_services sample_settings blank_db tomato_request)) = []"
proof -
  have h6: "failure blank_db = None" by (simp add: blank_db_def)
  have h7: "strip (join ''\<newline>\<newline>''
           (map content (nearest sample_services [1, 0] (k_retrieval sample_settings)
              (documents blank_db)))) = []"
    by (simp add: nearest_def blank_db_def sample_settings_def strip_def is_space_def)
  from blank_context_insufficient_answer[OF tomato_normalized tomato_not_small_talk sample_embed h6 h7]
  show ?thesis by (simp add: sample_settings_def is_generate_def translate_calls_def)
qed

text \<open>
  C4. On every exit path of \<open>ask_question\<close> (an error, a short-circuit, the
  insufficient-information answer or the full pipeline) the log of the request holds at most
  one translation of the question into the working language and at most one translation
  of the reply for the requester.
\<close>

theorem one_translation_per_direction:
  "length (translate_calls QuestionToWorking (snd (run sv settings db request))) \<le> 1 \<and>
   length (translate_calls AnswerToRequester (snd (run sv settings db request))) \<le> 1"
proof -
  from adds_ask_question[of sv settings db request]
  obtain r xs where "ask_question sv settings db request [] = (r, [] @ xs)"
    and "length (translate_calls QuestionToWorking xs) \<le> Suc 0"
    and "length (translate_calls AnswerToRequester xs) \<le> Suc 0"
    unfolding adds_def by blast
  then show ?thesis by (simp add: run_def)
qed


text \<open>
  C3. When the store query raises during retrieval, \<open>ask_question\<close> raises an
  \<open>HTTPException\<close> with status 503 and returns no response: its detail is the fixed
  connectivity message when the lower-cased error text contains "network is unreachable"
  or "connection", and otherwise "Database error: " followed by at most the first 200
  characters of the error text; the two details are never equal.
\<close>

theorem store_failure_surfaces_503:
  assumes "normalize sv request [] = (Inr (question_lang, english_question), calls0)"
    and "\<not> is_greeting (question_lower english_question)"
    and "\<not> is_intro (question_lower english_question)"
    and "\<not> is_thanks (question_lower english_question)"
    and "single_embed sv english_question = Inr query_embedding"
    and "failure db = Some root_err"
  shows "fst (run sv settings db request) =
           Inl (HTTPException 503
             (if sublist ''network is unreachable'' (lower root_err) \<or>
                 sublist ''connection'' (lower root_err)
              then connectivity_detail
              else ''Database error: '' @ take 200 root_err)) \<and>
         length (take 200 root_err) \<le> 200 \<and>
         connectivity_detail \<noteq> ''Database error: '' @ take 200 root_err"
proof -
  have "run sv settings db request =
      answer_from_store sv settings db request question_lang english_question calls0"
    using run_after_normalize[OF assms(1)] assms(2-4) by simp
  then have "fst (run sv settings db request) =
           Inl (HTTPException 503
             (if sublist ''network is unreachable'' (lower root_err) \<or>
                 sublist ''connection'' (lower root_err)
              then connectivity_detail
              else ''Database error: '' @ take 200 root_err))"
    by (simp only: answer_from_store_failure[OF assms(5,6)] fst_conv)
  moreover have "connectivity_detail \<noteq> ''Database error: '' @ take 200 root_err"
    by (simp add: connectivity_detail_def)
  ultimately show ?thesis by simp
qed

theorem store_failure_surfaces_503_witness:
  "fst (run sample_services sample_settings refused_db tomato_request) =
     Inl (HTTPException 503 connectivity_detail) \<and>
   fst (run sample_services sample_settings selct_db tomato_request) =
     Inl (HTTPException 503 ''Database error: syntax error at or near SELCT'')"
proof -
  have r: "failure refused_db = Some ''could not connect to server: Connection refused''"
    by (simp add: refused_db_def)
  have s: "failure selct_db = Some ''syntax error at or near SELCT''"
    by (simp add: selct_db_def)
  have rl: "sublist ''connection'' (lower ''could not connect to server: Connection refused'')"
    by code_simp
  have sl: "\<not> sublist ''network is unreachable'' (lower ''syntax error at or near SELCT'')"
    "\<not> sublist ''connection'' (lower ''syntax error at or near SELCT'')"
    by code_simp+
  from store_failure_surfaces_503[OF tomato_normalized tomato_not_small_talk sample_embed r,
      of sample_settings]
    store_failure_surfaces_503[OF tomato_normalized tomato_not_small_talk sample_embed s,
      of sample_settings]
  show ?thesis by (simp only: rl sl simp_thms if_True if_False) simp
qed

text \<open>
  C5 (as the code has it). On a greeting short-circuit the canned greeting is translated,
  from English into the detected language of the question, exactly when both the requested
  \<open>lang\<close> and the detected language differ from English; when \<open>lang\<close> is English or the
  question is detected as English it is returned untranslated and no reply translation is
  called.
\<close>

theorem greeting_translated_when_both_non_english:
  assumes "normalize sv request [] = (Inr (question_lang, english_question), calls0)"
    and "is_greeting (question_lower english_question)"
  shows "(lang request \<noteq> ''en'' \<and> question_lang \<noteq> Some ''en'' \<longrightarrow>
            run sv settings db request =
              (case google_translate sv greeting_response (Some ''en'') question_lang of
                 Inl msg \<Rightarrow> Inl (Propagated msg)
               | Inr translated \<Rightarrow> Inr \<lparr>answer = translated, sources = []\<rparr>,
               calls0 @ [Translate AnswerToRequester greeting_response (Some ''en'') question_lang])) \<and>
         (lang request = ''en'' \<or> question_lang = Some ''en'' \<longrightarrow>
            run sv settings db request =
              (Inr \<lparr>answer = greeting_response, sources = []\<rparr>, calls0) \<and>
            translate_calls AnswerToRequester (snd (run sv settings db request)) = [])"
proof -
  have run_eq: "run sv settings db request =
      canned_reply sv request question_lang greeting_response calls0"
    using run_after_normalize[OF assms(1)] assms(2) by simp
  show ?thesis
    unfolding run_eq
    using canned_reply_plain[of request question_lang sv greeting_response calls0]
      canned_reply_translated[of request question_lang sv greeting_response calls0]
      normalize_quiet(3)[OF assms(1)]
    by auto
qed

lemma selam_normalized:
  "normalize sample_services selam_request [] =
     (Inr (Some ''am'', ''hello''),
      [DetectLanguage ''selam'', Translate QuestionToWorking ''selam'' (Some ''am'') (Some ''en'')])"
  by (simp add: normalize_def sample_services_def sample_translate_def selam_request_def
      bind_io_def await_def ret_def)

lemma hello_is_greeting: "is_greeting (question_lower ''hello'')"
  by code_simp

theorem greeting_translated_when_both_non_english_witness:
  "run sample_services sample_settings sample_db selam_request =
     (Inr \<lparr>answer = ''[am] '' @ greeting_response, sources = []\<rparr>,
      [DetectLanguage ''selam'', Translate QuestionToWorking ''selam'' (Some ''am'') (Some ''en''),
       Translate AnswerToRequester greeting_response (Some ''en'') (Some ''am'')])"
proof -
  have l: "lang selam_request \<noteq> ''en'' \<and> Some ''am'' \<noteq> Some ''en''"
    by (simp add: selam_request_def)
  have g: "greeting_response \<noteq> ''selam''"
    by (simp add: greeting_response_def)
  have t: "google_translate sample_services greeting_response (Some ''en'') (Some ''am'') =
      Inr (''[am] '' @ greeting_response)"
    using g by (simp add: sample_services_def sample_translate_def or_en_def truthy_str_def)
  from greeting_translated_when_both_non_english[OF selam_normalized hello_is_greeting,
      of sample_settings sample_db] l
  have "run sample_services sample_settings sample_db selam_request =
      (case google_translate sample_services greeting_response (Some ''en'') (Some ''am'') of
         Inl msg \<Rightarrow> Inl (Propagated msg)
       | Inr translated \<Rightarrow> Inr \<lparr>answer = translated, sources = []\<rparr>,
       [DetectLanguage ''selam'', Translate QuestionToWorking ''selam'' (Some ''am'') (Some ''en'')] @
       [Translate AnswerToRequester greeting_response (Some ''en'') (Some ''am'')])"
    by blast
  then show ?thesis by (simp only: t sum.case append.simps)
qed

lemma hello_am_normalized:
  "normalize sample_services hello_am_request [] = (Inr (Some ''en'', ''hello''), [DetectLanguage ''hello''])"
  by (simp add: normalize_def sample_services_def hello_am_request_def bind_io_def await_def ret_def)

theorem greeting_untranslated_counterexample:
  "valid_request hello_am_request \<and>
   lang hello_am_request = ''am'' \<and>
   normalize sample_services hello_am_request [] = (Inr (Some ''en'', ''hello''), [DetectLanguage ''hello'']) \<and>
   is_greeting (question_lower ''hello'') \<and>
   run sample_services sample_settings sample_db hello_am_request =
     (Inr \<lparr>answer = greeting_response, sources = []\<rparr>, [DetectLanguage ''hello'']) \<and>
   google_translate sample_services greeting_response (Some ''en'') (Some ''am'') \<noteq> Inr greeting_response"
proof -
  have v: "valid_request hello_am_request \<and> lang hello_am_request = ''am''"
    by (simp add: valid_request_def hello_am_request_def)
  have run_eq: "run sample_services sample_settings sample_db hello_am_request =
      canned_reply sample_services hello_am_request (Some ''en'') greeting_response [DetectLanguage ''hello'']"
    using run_after_normalize[OF hello_am_normalized] hello_is_greeting by simp
  have g: "greeting_response \<noteq> ''selam''"
    by (simp add: greeting_response_def)
  have t: "google_translate sample_services greeting_response (Some ''en'') (Some ''am'') \<noteq>
      Inr greeting_response"
    using g by (simp add: sample_services_def sample_translate_def or_en_def truthy_str_def)
  show ?thesis
    using v hello_am_normalized hello_is_greeting t
    by (simp add: run_eq canned_reply_plain)
qed


lemma sample_context:
  "join ''\<newline>\<newline>''
     (map content (nearest sample_services [1, 0] (k_retrieval sample_settings) (documents sample_db)))
   = ''Tomatoes need potassium.\<newline>\<newline>Compost improves soil.\<newline>\<newline>Rotate crops yearly.''"
  by (simp add: nearest_def sample_services_def sample_db_def sample_settings_def)

lemma sample_context_not_blank:
  "strip (join ''\<newline>\<newline>''
     (map content (nearest sample_services [1, 0] (k_retrieval sample_settings) (documents sample_db))))
   \<noteq> []"
  unfolding sample_context by (simp add: strip_def is_space_def)

lemma sample_db_answers: "failure sample_db = None"
  by (simp add: sample_db_def)

lemma sample_chat:
  "chat_completion sample_services system_text messages max_tokens = Inr ''Use **compost** and NPK. >>>>''"
  by (simp add: sample_services_def)

lemma sample_cleaned: "clean_text ''Use **compost** and NPK. >>>>'' = ''Use compost and NPK. ''"
  by (simp add: clean_text_def)

lemma equator_normalized:
  "normalize sample_services equator_request [] =
     (Inr (Some ''en'', ''What fertilizer suits tomatoes?''),
      [DetectLanguage ''What fertilizer suits tomatoes?''])"
  by (simp add: normalize_def sample_services_def equator_request_def bind_io_def await_def ret_def)

text \<open>
  C6. The claim asks for the coordinate weather call whenever latitude and longitude are
  both present, the value 0.0 included. Line 148 tests the two numbers for truthiness, so
  a request on the equator (latitude 0.0, longitude 38.0) runs the full pipeline without
  any weather call, and its prompt carries the marker for absent weather data.
\<close>

theorem zero_latitude_skips_weather:
  "valid_request equator_request \<and>
   latitude equator_request = Some 0 \<and> longitude equator_request = Some 38 \<and>
   run sample_services sample_settings sample_db equator_request =
     (Inr \<lparr>answer = ''Use compost and NPK. '', sources = [''source1'', ''source2'']\<rparr>,
      [DetectLanguage ''What fertilizer suits tomatoes?'',
       Embed ''What fertilizer suits tomatoes?'',
       Retrieve [1, 0] 5,
       Generate system_prompt
         [(''user'', prompt ''What fertilizer suits tomatoes?'' ''English''
            ''Tomatoes need potassium.\<newline>\<newline>Compost improves soil.\<newline>\<newline>Rotate crops yearly.''
            ''No weather data provided.'')] 512])"
proof -
  have v: "valid_request equator_request \<and>
      latitude equator_request = Some 0 \<and> longitude equator_request = Some 38"
    by (simp add: valid_request_def equator_request_def)
  have aug: "augment_weather sample_services equator_request
      (join ''\<newline>\<newline>''
        (map content (nearest sample_services [1, 0] (k_retrieval sample_settings) (documents sample_db)))) []
      = (Inr (''Tomatoes need potassium.\<newline>\<newline>Compost improves soil.\<newline>\<newline>Rotate crops yearly.'', None), [])"
    unfolding sample_context
    by (simp add: augment_weather_def bind_io_def location_weather_eq coordinates_weather_eq
        equator_request_def truthy_str_def truthy_float_def)
  have l: "lang equator_request = ''en''" "lang_name ''en'' = ''English''"
    by (simp_all add: equator_request_def lang_name_def lang_map_def)
  have k: "k_retrieval sample_settings = 5" by (simp add: sample_settings_def)
  have w: "weather_block None = ''No weather data provided.''"
    by (simp add: weather_block_def truthy_str_def)
  have "run sample_services sample_settings sample_db equator_request =
     (Inr \<lparr>answer = clean_text ''Use **compost** and NPK. >>>>'',
           sources = [''source1'', ''source2'']\<rparr>,
      [DetectLanguage ''What fertilizer suits tomatoes?''] @
      [Embed ''What fertilizer suits tomatoes?'', Retrieve [1, 0] (k_retrieval sample_settings)] @ [] @
      [Generate system_prompt
         [(''user'', prompt ''What fertilizer suits tomatoes?'' (lang_name (lang equator_request))
            ''Tomatoes need potassium.\<newline>\<newline>Compost improves soil.\<newline>\<newline>Rotate crops yearly.''
            (weather_block None))] 512])"
    unfolding run_to_generation[OF equator_normalized tomato_not_small_talk sample_embed
        sample_db_answers sample_context_not_blank aug refl refl]
    by (simp only: sample_chat sum.case l if_True simp_thms)
  then show ?thesis
    using v by (simp only: l k w sample_cleaned append.simps simp_thms)
qed


lemma nearest_subset: "set (nearest sv v k rows) \<subseteq> set rows"
  unfolding nearest_def using set_take_subset[of k] by fastforce

text \<open>
  C7 (as the code has it). For a request that is not short-circuited, whose retrieved
  context is not blank and whose weather lookups return, the generation service is called
  exactly once, with \<open>max_tokens = 512\<close>. The Context part of its user prompt is the
  contents of the retrieved rows joined by blank lines, the rows being at most
  \<open>k_retrieval\<close> stored rows in ascending order of cosine distance, followed by the
  labelled weather section of the location when the request has a non-empty location, and
  by the labelled weather section of the coordinates when it has both a latitude and a
  longitude; with neither, the Context part is the concatenation alone. Requests that
  supply both coordinates with one of them equal to 0.0 are outside this statement.
\<close>

theorem generation_once_with_retrieved_context:
  assumes "normalize sv request [] = (Inr (question_lang, english_question), calls0)"
    and "\<not> is_greeting (question_lower english_question)"
    and "\<not> is_intro (question_lower english_question)"
    and "\<not> is_thanks (question_lower english_question)"
    and "single_embed sv english_question = Inr query_embedding"
    and "failure db = None"
    and "strip (join ''\<newline>\<newline>''
           (map content (nearest sv query_embedding (k_retrieval settings) (documents db)))) \<noteq> []"
    and "truthy_str (location request) \<longrightarrow>
           get_weather sv (the (location request)) None None = Inr place_report"
    and "latitude request \<noteq> None \<and> longitude request \<noteq> None \<longrightarrow>
           latitude request \<noteq> Some 0 \<and> longitude request \<noteq> Some 0 \<and>
           get_weather sv [] (latitude request) (longitude request) = Inr coordinates_report"
  shows "filter is_generate (snd (run sv settings db request)) =
           [Generate system_prompt
              [(''user'', prompt english_question (lang_name (lang request))
                 (join ''\<newline>\<newline>''
                    (map content (nearest sv query_embedding (k_retrieval settings) (documents db))) @
                  (if truthy_str (location request)
                   then ''\<newline>\<newline>Weather information for '' @ the (location request) @
                        '':\<newline>'' @ place_report
                   else []) @
                  (if latitude request \<noteq> None \<and> longitude request \<noteq> None
                   then ''\<newline>\<newline>Weather information for coordinates ('' @
                        float_str sv (the (latitude request)) @ '', '' @
                        float_str sv (the (longitude request)) @ ''):\<newline>'' @ coordinates_report
                   else []))
                 (weather_block
                    (if latitude request \<noteq> None \<and> longitude request \<noteq> None
                     then Some coordinates_report
                     else if truthy_str (location request) then Some place_report else None)))]
              512] \<and>
         sorted (map (\<lambda>doc. cosine_distance sv (embedding doc) query_embedding)
                   (nearest sv query_embedding (k_retrieval settings) (documents db))) \<and>
         length (nearest sv query_embedding (k_retrieval settings) (documents db))
           \<le> k_retrieval settings \<and>
         set (nearest sv query_embedding (k_retrieval settings) (documents db))
           \<subseteq> set (documents db)"
proof -
  let ?chunks = "join ''\<newline>\<newline>''
     (map content (nearest sv query_embedding (k_retrieval settings) (documents db)))"
  let ?assembled = "?chunks @
     (if truthy_str (location request)
      then ''\<newline>\<newline>Weather information for '' @ the (location request) @
           '':\<newline>'' @ place_report
      else []) @
     (if latitude request \<noteq> None \<and> longitude request \<noteq> None
      then ''\<newline>\<newline>Weather information for coordinates ('' @
           float_str sv (the (latitude request)) @ '', '' @
           float_str sv (the (longitude request)) @ ''):\<newline>'' @ coordinates_report
      else [])"
  let ?weather = "if latitude request \<noteq> None \<and> longitude request \<noteq> None
     then Some coordinates_report
     else if truthy_str (location request) then Some place_report else None"
  have "\<exists>ws. augment_weather sv request ?chunks [] = (Inr (?assembled, ?weather), ws)"
  proof (cases "latitude request \<noteq> None \<and> longitude request \<noteq> None")
    case True
    then obtain lat lon where ll: "latitude request = Some lat" "longitude request = Some lon"
      by blast
    with assms(9) have nz: "lat \<noteq> 0" "lon \<noteq> 0"
      and report: "get_weather sv [] (Some lat) (Some lon) = Inr coordinates_report"
      by simp_all
    show ?thesis
    proof (cases "truthy_str (location request)")
      case place: True
      with assms(8) have "get_weather sv (the (location request)) None None = Inr place_report"
        by blast
      with place ll nz report show ?thesis
        by (simp add: augment_weather_def bind_io_def location_weather_eq coordinates_weather_eq
            truthy_float_def)
    next
      case False
      with ll nz report show ?thesis
        by (simp add: augment_weather_def bind_io_def location_weather_eq coordinates_weather_eq
            truthy_float_def)
    qed
  next
    case False
    then have absent: "\<not> (truthy_float (latitude request) \<and> truthy_float (longitude request))"
      by (auto simp: truthy_float_def)
    show ?thesis
    proof (cases "truthy_str (location request)")
      case place: True
      with assms(8) have "get_weather sv (the (location request)) None None = Inr place_report"
        by blast
      with place False absent show ?thesis
        by (auto simp: augment_weather_def bind_io_def location_weather_eq coordinates_weather_eq)
    next
      case none: False
      with False absent show ?thesis
        by (auto simp: augment_weather_def bind_io_def location_weather_eq coordinates_weather_eq)
    qed
  qed
  then obtain ws where aug: "augment_weather sv request ?chunks [] =
      (Inr (?assembled, ?weather), ws)" by blast
  show ?thesis
    using run_generate_calls[OF assms(1-7) aug]
      nearest_sorted[of sv query_embedding "k_retrieval settings" "documents db"]
      nearest_length[of sv query_embedding "k_retrieval settings" "documents db"]
      nearest_subset[of sv query_embedding "k_retrieval settings" "documents db"]
    by blast
qed

lemma tomato_no_weather:
  "augment_weather sample_services tomato_request
      (join ''\<newline>\<newline>''
        (map content (nearest sample_services [1, 0] (k_retrieval sample_settings) (documents sample_db)))) []
      = (Inr (''Tomatoes need potassium.\<newline>\<newline>Compost improves soil.\<newline>\<newline>Rotate crops yearly.'', None), [])"
  unfolding sample_context
  by (simp add: augment_weather_def bind_io_def location_weather_eq coordinates_weather_eq
      tomato_request_def truthy_str_def truthy_float_def)

lemma addis_normalized:
  "normalize sample_services addis_request [] =
     (Inr (Some ''en'', ''What fertilizer suits tomatoes?''),
      [DetectLanguage ''What fertilizer suits tomatoes?''])"
  by (simp add: normalize_def sample_services_def addis_request_def bind_io_def await_def ret_def)

lemma addis_weather:
  "augment_weather sample_services addis_request
      (join ''\<newline>\<newline>''
        (map content (nearest sample_services [1, 0] (k_retrieval sample_settings) (documents sample_db)))) []
      = (Inr (''Tomatoes need potassium.\<newline>\<newline>Compost improves soil.\<newline>\<newline>Rotate crops yearly.'' @
              ''\<newline>\<newline>Weather information for Addis Ababa:\<newline>Light rain, 18 C'' @
              ''\<newline>\<newline>Weather information for coordinates (9.0, 38.0):\<newline>Clear sky, 24 C'',
              Some ''Clear sky, 24 C''),
         [Weather ''Addis Ababa'' None None, Weather [] (Some 9) (Some 38)])"
  unfolding sample_context
  by (simp add: augment_weather_def bind_io_def location_weather_eq coordinates_weather_eq
      addis_request_def truthy_str_def truthy_float_def sample_services_def)

theorem generation_once_with_retrieved_context_witness:
  "filter is_generate (snd (run sample_services sample_settings sample_db addis_request)) =
     [Generate system_prompt
        [(''user'', prompt ''What fertilizer suits tomatoes?'' ''English''
           (''Tomatoes need potassium.\<newline>\<newline>Compost improves soil.\<newline>\<newline>Rotate crops yearly.'' @
            ''\<newline>\<newline>Weather information for Addis Ababa:\<newline>Light rain, 18 C'' @
            ''\<newline>\<newline>Weather information for coordinates (9.0, 38.0):\<newline>Clear sky, 24 C'')
           ''Clear sky, 24 C'')] 512] \<and>
   filter is_generate (snd (run sample_services sample_settings sample_db tomato_request)) =
     [Generate system_prompt
        [(''user'', prompt ''What fertilizer suits tomatoes?'' ''English''
           ''Tomatoes need potassium.\<newline>\<newline>Compost improves soil.\<newline>\<newline>Rotate crops yearly.''
           ''No weather data provided.'')] 512] \<and>
   sorted (map (\<lambda>doc. cosine_distance sample_services (embedding doc) [1, 0])
             (nearest sample_services [1, 0] 5 (documents sample_db)))"
proof -
  have la: "lang_name (lang addis_request) = ''English''"
    by (simp add: addis_request_def lang_name_def lang_map_def)
  have lt: "lang_name (lang tomato_request) = ''English''"
    by (simp add: tomato_request_def lang_name_def lang_map_def)
  have k: "k_retrieval sample_settings = 5" by (simp add: sample_settings_def)
  have a8: "truthy_str (location addis_request) \<longrightarrow>
      get_weather sample_services (the (location addis_request)) None None = Inr ''Light rain, 18 C''"
    by (simp add: addis_request_def sample_services_def)
  have a9: "latitude addis_request \<noteq> None \<and> longitude addis_request \<noteq> None \<longrightarrow>
      latitude addis_request \<noteq> Some 0 \<and> longitude addis_request \<noteq> Some 0 \<and>
      get_weather sample_services [] (latitude addis_request) (longitude addis_request)
        = Inr ''Clear sky, 24 C''"
    by (simp add: addis_request_def sample_services_def)
  have t8: "truthy_str (location tomato_request) \<longrightarrow>
      get_weather sample_services (the (location tomato_request)) None None = Inr ''Light rain, 18 C''"
    by (simp add: tomato_request_def truthy_str_def)
  have t9: "latitude tomato_request \<noteq> None \<and> longitude tomato_request \<noteq> None \<longrightarrow>
      latitude tomato_request \<noteq> Some 0 \<and> longitude tomato_request \<noteq> Some 0 \<and>
      get_weather sample_services [] (latitude tomato_request) (longitude tomato_request)
        = Inr ''Clear sky, 24 C''"
    by (simp add: tomato_request_def)
  have fa: "location addis_request = Some ''Addis Ababa''"
    "latitude addis_request = Some 9" "longitude addis_request = Some 38"
    "float_str sample_services 9 = ''9.0''" "float_str sample_services 38 = ''38.0''"
    by (simp_all add: addis_request_def sample_services_def)
  have ft: "location tomato_request = Some []"
    "latitude tomato_request = None" "longitude tomato_request = None"
    by (simp_all add: tomato_request_def)
  have w: "weather_block None = ''No weather data provided.''"
    "weather_block (Some ''Clear sky, 24 C'') = ''Clear sky, 24 C''"
    by (simp_all add: weather_block_def truthy_str_def)
  from generation_once_with_retrieved_context[OF addis_normalized tomato_not_small_talk
      sample_embed sample_db_answers sample_context_not_blank a8 a9]
    generation_once_with_retrieved_context[OF tomato_normalized tomato_not_small_talk
      sample_embed sample_db_answers sample_context_not_blank t8 t9]
  show ?thesis
    unfolding sample_context
    by (simp add: la lt k w fa ft truthy_str_def)
qed

theorem context_with_weather_counterexample:
  "valid_request addis_request \<and>
   join ''\<newline>\<newline>''
     (map content (nearest sample_services [1, 0] (k_retrieval sample_settings) (documents sample_db)))
     = ''Tomatoes need potassium.\<newline>\<newline>Compost improves soil.\<newline>\<newline>Rotate crops yearly.'' \<and>
   filter is_generate (snd (run sample_services sample_settings sample_db addis_request)) =
     [Generate system_prompt
        [(''user'', prompt ''What fertilizer suits tomatoes?'' ''English''
           (''Tomatoes need potassium.\<newline>\<newline>Compost improves soil.\<newline>\<newline>Rotate crops yearly.'' @
            ''\<newline>\<newline>Weather information for Addis Ababa:\<newline>Light rain, 18 C'' @
            ''\<newline>\<newline>Weather information for coordinates (9.0, 38.0):\<newline>Clear sky, 24 C'')
           ''Clear sky, 24 C'')] 512] \<and>
   ''Tomatoes need potassium.\<newline>\<newline>Compost improves soil.\<newline>\<newline>Rotate crops yearly.'' @
   ''\<newline>\<newline>Weather information for Addis Ababa:\<newline>Light rain, 18 C'' @
   ''\<newline>\<newline>Weather information for coordinates (9.0, 38.0):\<newline>Clear sky, 24 C''
     \<noteq> ''Tomatoes need potassium.\<newline>\<newline>Compost improves soil.\<newline>\<newline>Rotate crops yearly.''"
proof -
  have v: "valid_request addis_request"
    by (simp add: valid_request_def addis_request_def)
  have l: "lang_name (lang addis_request) = ''English''"
    by (simp add: addis_request_def lang_name_def lang_map_def)
  have w: "weather_block (Some ''Clear sky, 24 C'') = ''Clear sky, 24 C''"
    by (simp add: weather_block_def truthy_str_def)
  have d: "''Tomatoes need potassium.\<newline>\<newline>Compost improves soil.\<newline>\<newline>Rotate crops yearly.'' @
   ''\<newline>\<newline>Weather information for Addis Ababa:\<newline>Light rain, 18 C'' @
   ''\<newline>\<newline>Weather information for coordinates (9.0, 38.0):\<newline>Clear sky, 24 C''
     \<noteq> ''Tomatoes need potassium.\<newline>\<newline>Compost improves soil.\<newline>\<newline>Rotate crops yearly.''"
    by simp
  from run_generate_calls[OF addis_normalized tomato_not_small_talk sample_embed sample_db_answers
      sample_context_not_blank addis_weather] v sample_context d
  show ?thesis by (simp only: l w simp_thms)
qed


text \<open>
  C8 (as the code has it). On the full pipeline the generated answer goes through
  \<open>clean_text\<close> whatever the languages, and it is the cleaned text that is returned or
  handed to the reply translation. \<open>clean_text\<close> removes the occurrences of \<open>**\<close> and
  then those of \<open>>>>>\<close>: the cleaned answer never contains \<open>>>>>\<close>, and it contains
  \<open>**\<close> only if, once the \<open>**\<close> are removed, an asterisk stands directly before a
  \<open>>>>>\<close>.
\<close>

theorem cleaned_answer_artifacts:
  assumes "normalize sv request [] = (Inr (question_lang, english_question), calls0)"
    and "\<not> is_greeting (question_lower english_question)"
    and "\<not> is_intro (question_lower english_question)"
    and "\<not> is_thanks (question_lower english_question)"
    and "single_embed sv english_question = Inr query_embedding"
    and "failure db = None"
    and "strip (join ''\<newline>\<newline>''
           (map content (nearest sv query_embedding (k_retrieval settings) (documents db)))) \<noteq> []"
    and "augment_weather sv request
           (join ''\<newline>\<newline>''
              (map content (nearest sv query_embedding (k_retrieval settings) (documents db)))) []
         = (Inr (context, weather_data), ws)"
    and "chat_completion sv system_prompt
           [(''user'', prompt english_question (lang_name (lang request)) context
                        (weather_block weather_data))] 512 = Inr generated"
  shows "fst (run sv settings db request) =
           (if lang request = ''en'' \<and> question_lang = Some ''en''
            then Inr \<lparr>answer = clean_text generated, sources = [''source1'', ''source2'']\<rparr>
            else (case google_translate sv (clean_text generated) (Some ''en'')
                         (Some (or_en question_lang)) of
                    Inl msg \<Rightarrow> Inl (Propagated msg)
                  | Inr translated \<Rightarrow>
                      Inr \<lparr>answer = translated, sources = [''source1'', ''source2'']\<rparr>)) \<and>
         \<not> sublist ''>>>>'' (clean_text generated) \<and>
         (\<not> sublist ''*>>>>'' (replace ''**'' '''' generated) \<longrightarrow>
            \<not> sublist ''**'' (clean_text generated))"
proof -
  have "fst (run sv settings db request) =
           (if lang request = ''en'' \<and> question_lang = Some ''en''
            then Inr \<lparr>answer = clean_text generated, sources = [''source1'', ''source2'']\<rparr>
            else (case google_translate sv (clean_text generated) (Some ''en'')
                         (Some (or_en question_lang)) of
                    Inl msg \<Rightarrow> Inl (Propagated msg)
                  | Inr translated \<Rightarrow>
                      Inr \<lparr>answer = translated, sources = [''source1'', ''source2'']\<rparr>))"
    unfolding run_to_generation[OF assms(1-8) refl refl]
    by (simp add: assms(9))
  then show ?thesis
    using clean_text_artifacts[of generated] by simp
qed

theorem cleaned_answer_artifacts_witness:
  "fst (run sample_services sample_settings sample_db tomato_request) =
     Inr \<lparr>answer = ''Use compost and NPK. '', sources = [''source1'', ''source2'']\<rparr> \<and>
   \<not> sublist ''>>>>'' ''Use compost and NPK. '' \<and>
   \<not> sublist ''*>>>>'' (replace ''**'' '''' ''Use **compost** and NPK. >>>>'') \<and>
   \<not> sublist ''**'' ''Use compost and NPK. ''"
proof -
  have l: "lang tomato_request = ''en''" by (simp add: tomato_request_def)
  have h: "\<not> sublist ''*>>>>'' (replace ''**'' '''' ''Use **compost** and NPK. >>>>'')"
    by code_simp
  from cleaned_answer_artifacts[OF tomato_normalized tomato_not_small_talk sample_embed
      sample_db_answers sample_context_not_blank tomato_no_weather sample_chat] h
  show ?thesis by (simp only: l sample_cleaned simp_thms if_True)
qed

theorem stars_rejoined_counterexample:
  "clean_text ''*>>>>*'' = ''**'' \<and> sublist ''**'' (clean_text ''*>>>>*'')"
  by (simp add: clean_text_def)

text \<open>
  C9 (as the code has it). With a non-empty location and non-zero latitude and longitude,
  both weather lookups returning, the Context part of the prompt holds the location
  section followed by the coordinates section, and the \<open>Weather Data:\<close> part is computed
  from the coordinates report alone: it is that report when it is not empty, and the
  marker \<open>No weather data provided.\<close> when it is empty.
\<close>

theorem weather_block_from_coordinates:
  assumes "normalize sv request [] = (Inr (question_lang, english_question), calls0)"
    and "\<not> is_greeting (question_lower english_question)"
    and "\<not> is_intro (question_lower english_question)"
    and "\<not> is_thanks (question_lower english_question)"
    and "single_embed sv english_question = Inr query_embedding"
    and "failure db = None"
    and "strip (join ''\<newline>\<newline>''
           (map content (nearest sv query_embedding (k_retrieval settings) (documents db)))) \<noteq> []"
    and "location request = Some place" and "place \<noteq> []"
    and "latitude request = Some lat" and "lat \<noteq> 0"
    and "longitude request = Some lon" and "lon \<noteq> 0"
    and "get_weather sv place None None = Inr place_report"
    and "get_weather sv '''' (Some lat) (Some lon) = Inr coordinates_report"
  shows "filter is_generate (snd (run sv settings db request)) =
           [Generate system_prompt
              [(''user'', prompt english_question (lang_name (lang request))
                 (join ''\<newline>\<newline>''
                    (map content (nearest sv query_embedding (k_retrieval settings) (documents db))) @
                  ''\<newline>\<newline>Weather information for '' @ place @ '':\<newline>'' @ place_report @
                  ''\<newline>\<newline>Weather information for coordinates ('' @ float_str sv lat @ '', '' @
                  float_str sv lon @ ''):\<newline>'' @ coordinates_report)
                 (if coordinates_report = [] then ''No weather data provided.''
                  else coordinates_report))] 512]"
proof -
  let ?context0 = "join ''\<newline>\<newline>''
     (map content (nearest sv query_embedding (k_retrieval settings) (documents db)))"
  have aug: "augment_weather sv request ?context0 [] =
     (Inr (?context0 @
           ''\<newline>\<newline>Weather information for '' @ place @ '':\<newline>'' @ place_report @
           ''\<newline>\<newline>Weather information for coordinates ('' @ float_str sv lat @ '', '' @
           float_str sv lon @ ''):\<newline>'' @ coordinates_report, Some coordinates_report),
      [Weather place None None, Weather '''' (Some lat) (Some lon)])"
    using assms(8-15)
    by (simp add: augment_weather_def bind_io_def location_weather_eq coordinates_weather_eq
        truthy_str_def truthy_float_def)
  have w: "weather_block (Some coordinates_report) =
      (if coordinates_report = [] then ''No weather data provided.'' else coordinates_report)"
    by (simp add: weather_block_def truthy_str_def)
  show ?thesis
    using run_generate_calls[OF assms(1-7) aug] unfolding w .
qed

theorem weather_block_from_coordinates_witness:
  "filter is_generate (snd (run sample_services sample_settings sample_db addis_request)) =
     [Generate system_prompt
        [(''user'', prompt ''What fertilizer suits tomatoes?'' ''English''
           (''Tomatoes need potassium.\<newline>\<newline>Compost improves soil.\<newline>\<newline>Rotate crops yearly.'' @
            ''\<newline>\<newline>Weather information for Addis Ababa:\<newline>Light rain, 18 C'' @
            ''\<newline>\<newline>Weather information for coordinates (9.0, 38.0):\<newline>Clear sky, 24 C'')
           ''Clear sky, 24 C'')] 512]"
proof -
  have l: "lang_name (lang addis_request) = ''English''"
    by (simp add: addis_request_def lang_name_def lang_map_def)
  have r: "location addis_request = Some ''Addis Ababa''" "''Addis Ababa'' \<noteq> []"
    "latitude addis_request = Some 9" "(9::real) \<noteq> 0"
    "longitude addis_request = Some 38" "(38::real) \<noteq> 0"
    by (simp_all add: addis_request_def)
  have g: "get_weather sample_services ''Addis Ababa'' None None = Inr ''Light rain, 18 C''"
    "get_weather sample_services '''' (Some 9) (Some 38) = Inr ''Clear sky, 24 C''"
    by (simp_all add: sample_services_def)
  have f: "float_str sample_services 9 = ''9.0''" "float_str sample_services 38 = ''38.0''"
    by (simp_all add: sample_services_def)
  from weather_block_from_coordinates[OF addis_normalized tomato_not_small_talk sample_embed
      sample_db_answers sample_context_not_blank r g]
  show ?thesis
    unfolding sample_context l f by simp
qed

lemma silent_normalized:
  "normalize silent_weather_services addis_request [] =
     (Inr (Some ''en'', ''What fertilizer suits tomatoes?''),
      [DetectLanguage ''What fertilizer suits tomatoes?''])"
  by (simp add: normalize_def silent_weather_services_def sample_services_def addis_request_def
      bind_io_def await_def ret_def)

lemma silent_context:
  "join ''\<newline>\<newline>''
     (map content (nearest silent_weather_services [1, 0] (k_retrieval sample_settings)
        (documents sample_db)))
   = ''Tomatoes need potassium.\<newline>\<newline>Compost improves soil.\<newline>\<newline>Rotate crops yearly.''"
  by (simp add: nearest_def silent_weather_services_def sample_services_def sample_db_def
      sample_settings_def)

theorem empty_coordinates_report_counterexample:
  "valid_request addis_request \<and>
   location addis_request = Some ''Addis Ababa'' \<and>
   latitude addis_request = Some 9 \<and> longitude addis_request = Some 38 \<and>
   get_weather silent_weather_services ''Addis Ababa'' None None = Inr ''Light rain, 18 C'' \<and>
   get_weather silent_weather_services '''' (Some 9) (Some 38) = Inr '''' \<and>
   filter is_generate (snd (run silent_weather_services sample_settings sample_db addis_request)) =
     [Generate system_prompt
        [(''user'', prompt ''What fertilizer suits tomatoes?'' ''English''
           (''Tomatoes need potassium.\<newline>\<newline>Compost improves soil.\<newline>\<newline>Rotate crops yearly.'' @
            ''\<newline>\<newline>Weather information for Addis Ababa:\<newline>Light rain, 18 C'' @
            ''\<newline>\<newline>Weather information for coordinates (9.0, 38.0):\<newline>'')
           ''No weather data provided.'')] 512]"
proof -
  have v: "valid_request addis_request \<and> location addis_request = Some ''Addis Ababa'' \<and>
      latitude addis_request = Some 9 \<and> longitude addis_request = Some 38"
    by (simp add: valid_request_def addis_request_def)
  have g: "get_weather silent_weather_services ''Addis Ababa'' None None = Inr ''Light rain, 18 C''"
    "get_weather silent_weather_services '''' (Some 9) (Some 38) = Inr ''''"
    by (simp_all add: silent_weather_services_def)
  have e: "single_embed silent_weather_services ''What fertilizer suits tomatoes?'' = Inr [1, 0]"
    by (simp add: silent_weather_services_def sample_services_def)
  have nb: "strip (join ''\<newline>\<newline>''
     (map content (nearest silent_weather_services [1, 0] (k_retrieval sample_settings)
        (documents sample_db)))) \<noteq> []"
    unfolding silent_context by (simp add: strip_def is_space_def)
  have aug: "augment_weather silent_weather_services addis_request
      (join ''\<newline>\<newline>''
        (map content (nearest silent_weather_services [1, 0] (k_retrieval sample_settings)
           (documents sample_db)))) []
      = (Inr (''Tomatoes need potassium.\<newline>\<newline>Compost improves soil.\<newline>\<newline>Rotate crops yearly.'' @
              ''\<newline>\<newline>Weather information for Addis Ababa:\<newline>Light rain, 18 C'' @
              ''\<newline>\<newline>Weather information for coordinates (9.0, 38.0):\<newline>'',
              Some ''''),
         [Weather ''Addis Ababa'' None None, Weather [] (Some 9) (Some 38)])"
    unfolding silent_context
    by (simp add: augment_weather_def bind_io_def location_weather_eq coordinates_weather_eq
        addis_request_def truthy_str_def truthy_float_def silent_weather_services_def
        sample_services_def)
  have l: "lang_name (lang addis_request) = ''English''"
    by (simp add: addis_request_def lang_name_def lang_map_def)
  have w: "weather_block (Some '''') = ''No weather data provided.''"
    by (simp add: weather_block_def truthy_str_def)
  from run_generate_calls[OF silent_normalized tomato_not_small_talk e sample_db_answers nb aug]
    v g
  show ?thesis by (simp only: l w simp_thms)
qed

lemma normalize_detected:
  assumes "normalize sv request [] = (Inr (question_lang, english_question), calls0)"
  shows "detect_language sv (question request) = Inr question_lang"
  using assms
  by (auto simp: normalize_def bind_io_def await_def ret_def Let_def split: sum.splits if_splits)

text \<open>
  C10. Whenever the reply translation runs on the full pipeline (requested \<open>lang\<close> not
  English, or detected language not English), its source is English and its destination
  is the language that \<open>detect_language\<close> returned for the question, or English when
  detection gave a falsy value; the requested \<open>lang\<close> is not consulted. A question
  detected as English under a non-English \<open>lang\<close> is therefore translated from English
  to English, and the response is what that call returns.
\<close>

theorem reply_translated_to_detected_language:
  assumes "normalize sv request [] = (Inr (question_lang, english_question), calls0)"
    and "\<not> is_greeting (question_lower english_question)"
    and "\<not> is_intro (question_lower english_question)"
    and "\<not> is_thanks (question_lower english_question)"
    and "single_embed sv english_question = Inr query_embedding"
    and "failure db = None"
    and "strip (join ''\<newline>\<newline>''
           (map content (nearest sv query_embedding (k_retrieval settings) (documents db)))) \<noteq> []"
    and "augment_weather sv request
           (join ''\<newline>\<newline>''
              (map content (nearest sv query_embedding (k_retrieval settings) (documents db)))) []
         = (Inr (context, weather_data), ws)"
    and "chat_completion sv system_prompt
           [(''user'', prompt english_question (lang_name (lang request)) context
                        (weather_block weather_data))] 512 = Inr generated"
    and "lang request \<noteq> ''en'' \<or> question_lang \<noteq> Some ''en''"
  shows "detect_language sv (question request) = Inr question_lang \<and>
         translate_calls AnswerToRequester (snd (run sv settings db request)) =
           [Translate AnswerToRequester (clean_text generated) (Some ''en'')
              (Some (if question_lang = None \<or> question_lang = Some [] then ''en''
                     else the question_lang))] \<and>
         fst (run sv settings db request) =
           (case google_translate sv (clean_text generated) (Some ''en'')
                   (Some (if question_lang = None \<or> question_lang = Some [] then ''en''
                          else the question_lang)) of
              Inl msg \<Rightarrow> Inl (Propagated msg)
            | Inr translated \<Rightarrow>
                Inr \<lparr>answer = translated, sources = [''source1'', ''source2'']\<rparr>) \<and>
         (question_lang = Some ''en'' \<longrightarrow>
            translate_calls AnswerToRequester (snd (run sv settings db request)) =
              [Translate AnswerToRequester (clean_text generated) (Some ''en'') (Some ''en'')])"
proof -
  have dest: "or_en question_lang =
      (if question_lang = None \<or> question_lang = Some [] then ''en'' else the question_lang)"
    by (auto simp: or_en_def truthy_str_def split: option.splits)
  have ne: "\<not> (lang request = ''en'' \<and> question_lang = Some ''en'')"
    using assms(10) by blast
  note quiet = normalize_quiet(3)[OF assms(1)]
    augment_weather_quiet(2)[OF assms(8), of AnswerToRequester]
  have run_eq: "run sv settings db request =
      (case google_translate sv (clean_text generated) (Some ''en'') (Some (or_en question_lang)) of
         Inl msg \<Rightarrow> Inl (Propagated msg)
       | Inr translated \<Rightarrow> Inr \<lparr>answer = translated, sources = [''source1'', ''source2'']\<rparr>,
       (calls0 @ [Embed english_question, Retrieve query_embedding (k_retrieval settings)] @ ws @
        [Generate system_prompt
           [(''user'', prompt english_question (lang_name (lang request)) context
                        (weather_block weather_data))] 512]) @
       [Translate AnswerToRequester (clean_text generated) (Some ''en'')
          (Some (or_en question_lang))])"
    unfolding run_to_generation[OF assms(1-8) refl refl]
    using ne by (simp add: assms(9))
  have calls: "translate_calls AnswerToRequester (snd (run sv settings db request)) =
      [Translate AnswerToRequester (clean_text generated) (Some ''en'')
         (Some (or_en question_lang))]"
    unfolding run_eq using quiet
    by (simp add: translate_calls_def)
  show ?thesis
    using calls run_eq normalize_detected[OF assms(1)] unfolding dest by auto
qed

lemma tomato_am_normalized:
  "normalize sample_services tomato_am_request [] =
     (Inr (Some ''en'', ''What fertilizer suits tomatoes?''),
      [DetectLanguage ''What fertilizer suits tomatoes?''])"
  by (simp add: normalize_def sample_services_def tomato_am_request_def bind_io_def await_def ret_def)

lemma tomato_am_no_weather:
  "augment_weather sv tomato_am_request context [] = (Inr (context, None), [])"
  by (simp add: augment_weather_def bind_io_def location_weather_eq coordinates_weather_eq
      tomato_am_request_def truthy_str_def truthy_float_def)

lemma tomato_no_weather_any:
  "augment_weather sv tomato_request context [] = (Inr (context, None), [])"
  by (simp add: augment_weather_def bind_io_def location_weather_eq coordinates_weather_eq
      tomato_request_def truthy_str_def truthy_float_def)

lemma amharic_normalized:
  "normalize amharic_services tomato_request [] =
     (Inr (Some ''am'', ''[en] What fertilizer suits tomatoes?''),
      [DetectLanguage ''What fertilizer suits tomatoes?'',
       Translate QuestionToWorking ''What fertilizer suits tomatoes?'' (Some ''en'') (Some ''en'')])"
  by (simp add: normalize_def amharic_services_def sample_services_def sample_translate_def
      tomato_request_def bind_io_def await_def ret_def or_en_def truthy_str_def)

lemma undetected_normalized:
  "normalize undetected_services tomato_am_request [] =
     (Inr (None, ''[en] What fertilizer suits tomatoes?''),
      [DetectLanguage ''What fertilizer suits tomatoes?'',
       Translate QuestionToWorking ''What fertilizer suits tomatoes?'' (Some ''am'') (Some ''en'')])"
  by (simp add: normalize_def undetected_services_def sample_services_def sample_translate_def
      tomato_am_request_def bind_io_def await_def ret_def or_en_def truthy_str_def)

lemma translated_tomato_not_small_talk:
  "\<not> is_greeting (question_lower ''[en] What fertilizer suits tomatoes?'')"
  "\<not> is_intro (question_lower ''[en] What fertilizer suits tomatoes?'')"
  "\<not> is_thanks (question_lower ''[en] What fertilizer suits tomatoes?'')"
  by code_simp+

lemma variant_services:
  "single_embed amharic_services text = Inr [1, 0]"
  "single_embed undetected_services text = Inr [1, 0]"
  "nearest amharic_services = nearest sample_services"
  "nearest undetected_services = nearest sample_services"
  "chat_completion amharic_services system_text messages max_tokens
     = Inr ''Use **compost** and NPK. >>>>''"
  "chat_completion undetected_services system_text messages max_tokens
     = Inr ''Use **compost** and NPK. >>>>''"
  "google_translate amharic_services = sample_translate"
  "google_translate undetected_services = sample_translate"
  by (simp_all add: amharic_services_def undetected_services_def sample_services_def
      nearest_def fun_eq_iff)

theorem reply_translated_to_detected_language_witness:
  "lang tomato_am_request = ''am'' \<and>
   detect_language sample_services (question tomato_am_request) = Inr (Some ''en'') \<and>
   translate_calls AnswerToRequester
     (snd (run sample_services sample_settings sample_db tomato_am_request)) =
     [Translate AnswerToRequester ''Use compost and NPK. '' (Some ''en'') (Some ''en'')] \<and>
   fst (run sample_services sample_settings sample_db tomato_am_request) =
     Inr \<lparr>answer = ''[en] Use compost and NPK. '', sources = [''source1'', ''source2'']\<rparr> \<and>
   lang tomato_request = ''en'' \<and>
   detect_language amharic_services (question tomato_request) = Inr (Some ''am'') \<and>
   translate_calls AnswerToRequester
     (snd (run amharic_services sample_settings sample_db tomato_request)) =
     [Translate AnswerToRequester ''Use compost and NPK. '' (Some ''en'') (Some ''am'')] \<and>
   fst (run amharic_services sample_settings sample_db tomato_request) =
     Inr \<lparr>answer = ''[am] Use compost and NPK. '', sources = [''source1'', ''source2'']\<rparr> \<and>
   detect_language undetected_services (question tomato_am_request) = Inr None \<and>
   translate_calls AnswerToRequester
     (snd (run undetected_services sample_settings sample_db tomato_am_request)) =
     [Translate AnswerToRequester ''Use compost and NPK. '' (Some ''en'') (Some ''en'')]"
proof -
  have l: "lang tomato_am_request = ''am''" "lang tomato_request = ''en''"
    by (simp_all add: tomato_am_request_def tomato_request_def)
  have ne1: "lang tomato_am_request \<noteq> ''en'' \<or> Some ''en'' \<noteq> Some ''en''"
    by (simp add: tomato_am_request_def)
  have ne2: "lang tomato_request \<noteq> ''en'' \<or> Some ''am'' \<noteq> Some ''en''"
    by simp
  have ne3: "lang tomato_am_request \<noteq> ''en'' \<or> None \<noteq> Some ''en''"
    by simp
  have t: "sample_translate ''Use compost and NPK. '' (Some ''en'') (Some ''en'')
      = Inr ''[en] Use compost and NPK. ''"
    "sample_translate ''Use compost and NPK. '' (Some ''en'') (Some ''am'')
      = Inr ''[am] Use compost and NPK. ''"
    by (simp_all add: sample_translate_def or_en_def truthy_str_def)
  have g: "google_translate sample_services = sample_translate"
    by (simp add: sample_services_def)
  have nb2: "strip (join ''\<newline>\<newline>''
      (map content (nearest amharic_services [1, 0] (k_retrieval sample_settings)
         (documents sample_db)))) \<noteq> []"
    unfolding variant_services by (rule sample_context_not_blank)
  have nb3: "strip (join ''\<newline>\<newline>''
      (map content (nearest undetected_services [1, 0] (k_retrieval sample_settings)
         (documents sample_db)))) \<noteq> []"
    unfolding variant_services by (rule sample_context_not_blank)
  from reply_translated_to_detected_language[OF tomato_am_normalized tomato_not_small_talk
      sample_embed sample_db_answers sample_context_not_blank tomato_am_no_weather sample_chat ne1]
    reply_translated_to_detected_language[OF amharic_normalized translated_tomato_not_small_talk
      variant_services(1) sample_db_answers nb2 tomato_no_weather_any variant_services(5) ne2]
    reply_translated_to_detected_language[OF undetected_normalized translated_tomato_not_small_talk
      variant_services(2) sample_db_answers nb3 tomato_am_no_weather variant_services(6) ne3]
  show ?thesis
    using l by (simp add: sample_cleaned t g variant_services(7,8))
qed

end
